theory Spec2Isabelle
  imports Main
begin

section \<open>Python values, exceptions and library requests\<close>

text \<open>
  The module \<open>cv_grid_search.py\<close> is a sequence of calls into scikit-learn, pandas,
  matplotlib and the logger of \<open>mnts\<close>. None of these libraries is part of the
  repository, so the model keeps every value they produce opaque (\<open>PObj\<close>) and
  records every request made to them. What the module itself decides is modelled in
  full: the order of the requests, their arguments, the resolution of names and the
  propagation of exceptions.
\<close>

datatype pyval =
    PNone
  | PBool bool
  | PInt int
  | PFloat int int
  | PStr string
  | PTuple "pyval list"
  | PList "pyval list"
  | PDict "(pyval \<times> pyval) list"
  | PModule string
  | PImported string string
  | PFunction string
  | PObj nat

text \<open>
  \<open>PFloat m e\<close> stands for the decimal literal \<open>m * 10 ^ e\<close> of the source; the
  module does no arithmetic on floats. \<open>PModule n\<close> is the module object bound by
  \<open>import n\<close>, \<open>PImported m n\<close> the object bound by \<open>from m import n\<close>, and
  \<open>PFunction n\<close> a function defined by the module itself.
\<close>

datatype pyexn =
    NameError string
  | TypeError
  | ValueError
  | AttributeError
  | KeyError
  | Raised string

text \<open>
  A request is one operation on a value the module does not own: calling a callable
  found under a global name, reading an attribute, calling an attribute read before,
  subscripting, iterating, and the \<open>__index__\<close> protocol used by \<open>range\<close>.
\<close>

datatype request =
    Call pyval "pyval list" "(string \<times> pyval) list"
  | GetAttr pyval string
  | CallMethod pyval string "pyval list" "(string \<times> pyval) list"
  | GetItem pyval pyval
  | Iterate pyval
  | Index pyval

type_synonym event = "request \<times> (pyexn + pyval)"

text \<open>
  The libraries are one parameter of the model: a function that answers a request,
  given everything that happened before. It may answer the same request differently
  at different times (a shuffled split does), and it may raise.
\<close>

type_synonym library = "event list \<Rightarrow> request \<Rightarrow> pyexn + pyval"

type_synonym 'a exec = "event list \<Rightarrow> (pyexn + 'a) \<times> event list"

definition retE :: "'a \<Rightarrow> 'a exec" where
  "retE x = (\<lambda>t. (Inr x, t))"

definition raiseE :: "pyexn \<Rightarrow> 'a exec" where
  "raiseE e = (\<lambda>t. (Inl e, t))"

definition bindE :: "'a exec \<Rightarrow> ('a \<Rightarrow> 'b exec) \<Rightarrow> 'b exec" where
  "bindE m f = (\<lambda>t. case m t of
                      (Inl e, t') \<Rightarrow> (Inl e, t')
                    | (Inr x, t') \<Rightarrow> f x t')"

definition request :: "library \<Rightarrow> request \<Rightarrow> pyval exec" where
  "request lib q = (\<lambda>t. (lib t q, t @ [(q, lib t q)]))"

definition call :: "library \<Rightarrow> pyval \<Rightarrow> pyval list \<Rightarrow> (string \<times> pyval) list \<Rightarrow> pyval exec" where
  "call lib f args kwargs = request lib (Call f args kwargs)"

definition getattr :: "library \<Rightarrow> pyval \<Rightarrow> string \<Rightarrow> pyval exec" where
  "getattr lib v a = request lib (GetAttr v a)"

definition call_method ::
  "library \<Rightarrow> pyval \<Rightarrow> string \<Rightarrow> pyval list \<Rightarrow> (string \<times> pyval) list \<Rightarrow> pyval exec" where
  "call_method lib v a args kwargs = request lib (CallMethod v a args kwargs)"

definition getitem :: "library \<Rightarrow> pyval \<Rightarrow> pyval \<Rightarrow> pyval exec" where
  "getitem lib v k = request lib (GetItem v k)"

text \<open>
  Iteration, as the unpacking assignment \<open>fig, ax = ...\<close> does it: a tuple, list,
  string or dict of the module iterates by itself, an opaque object is asked, and
  anything else is not iterable.
\<close>

definition iterate :: "library \<Rightarrow> pyval \<Rightarrow> (pyval list) exec" where
  "iterate lib v =
     (case v of
        PTuple xs \<Rightarrow> retE xs
      | PList xs \<Rightarrow> retE xs
      | PStr s \<Rightarrow> retE (map (\<lambda>c. PStr [c]) s)
      | PDict kvs \<Rightarrow> retE (map fst kvs)
      | PObj n \<Rightarrow>
          bindE (request lib (Iterate v)) (\<lambda>r.
            case r of
              PTuple xs \<Rightarrow> retE xs
            | PList xs \<Rightarrow> retE xs
            | _ \<Rightarrow> raiseE TypeError)
      | _ \<Rightarrow> raiseE TypeError)"

definition unpack2 :: "library \<Rightarrow> pyval \<Rightarrow> (pyval \<times> pyval) exec" where
  "unpack2 lib v =
     bindE (iterate lib v) (\<lambda>xs.
       case xs of
         [a, b] \<Rightarrow> retE (a, b)
       | _ \<Rightarrow> raiseE ValueError)"

text \<open>
  \<open>range(n)\<close>: an int (or bool) is its own count, an opaque object is asked for its
  \<open>__index__\<close>, anything else is a TypeError. A count below zero gives no iteration.
\<close>

definition range_count :: "library \<Rightarrow> pyval \<Rightarrow> nat exec" where
  "range_count lib v =
     (case v of
        PInt n \<Rightarrow> retE (nat n)
      | PBool b \<Rightarrow> retE (if b then 1 else 0)
      | PObj k \<Rightarrow>
          bindE (request lib (Index v)) (\<lambda>r.
            case r of
              PInt n \<Rightarrow> retE (nat n)
            | _ \<Rightarrow> raiseE TypeError)
      | _ \<Rightarrow> raiseE TypeError)"

primrec for_range_from :: "nat \<Rightarrow> nat \<Rightarrow> (nat \<Rightarrow> 's \<Rightarrow> 's exec) \<Rightarrow> 's \<Rightarrow> 's exec" where
  "for_range_from i 0 body s = retE s"
| "for_range_from i (Suc k) body s = bindE (body i s) (for_range_from (Suc i) k body)"

definition for_range :: "nat \<Rightarrow> (nat \<Rightarrow> 's \<Rightarrow> 's exec) \<Rightarrow> 's \<Rightarrow> 's exec" where
  "for_range n body s = for_range_from 0 n body s"


section \<open>The module's global names\<close>

text \<open>
  A name that the function does not assign is looked up in the module's globals when
  the statement runs; an unbound one raises NameError there. (After the globals
  Python tries the builtins; none of the names looked up below is a builtin. The one
  builtin the function uses is \<open>range\<close>, modelled by \<open>range_count\<close> and taken not
  to be rebound by a wildcard import.)
\<close>

type_synonym globals = "string \<rightharpoonup> pyval"

definition load_global :: "globals \<Rightarrow> string \<Rightarrow> pyval exec" where
  "load_global G x = (case G x of Some v \<Rightarrow> retE v | None \<Rightarrow> raiseE (NameError x))"

text \<open>
  Lines 1 to 6 and the \<open>def\<close>. The two wildcard imports bind whatever the packages
  export; the lists of exported names with their values are parameters. Later
  bindings replace earlier ones.
  \<^verbatim>\<open>
  from sklearn import *
  from sklearn.model_selection import *
  import numpy as np
  import matplotlib.pyplot as plt
  from mnts.mnts_logger import MNTSLogger
  import pandas as pd
  \<close>
\<close>

definition module_globals :: "(string \<times> pyval) list \<Rightarrow> (string \<times> pyval) list \<Rightarrow> globals" where
  "module_globals sklearn_star model_selection_star =
     ((((((Map.empty
       ++ map_of sklearn_star)
       ++ map_of model_selection_star)
       (''np'' \<mapsto> PModule ''numpy''))
       (''plt'' \<mapsto> PModule ''matplotlib.pyplot''))
       (''MNTSLogger'' \<mapsto> PImported ''mnts.mnts_logger'' ''MNTSLogger''))
       (''pd'' \<mapsto> PModule ''pandas''))
       (''plot_performance_vs_hyperparams'' \<mapsto> PFunction ''plot_performance_vs_hyperparams'')"

definition exports :: "(string \<times> pyval) list \<Rightarrow> string \<Rightarrow> bool" where
  "exports star x = (x \<in> set (map fst star))"


section \<open>plot_performance_vs_hyperparams\<close>

text \<open>
  Each definition below is one statement of the function, with the evaluation order
  of Python: the callee first, then the arguments from left to right, then the call.
  \<^verbatim>\<open>
  def plot_performance_vs_hyperparams(clf, param_grid, features, targets,
                                      n_split=7, n_fold=15):
  \<close>
\<close>

text \<open>Line 14: \<^verbatim>\<open>splitter = StratifiedKFold(n_splits=n_split, shuffle=True)\<close>\<close>

definition new_splitter :: "globals \<Rightarrow> library \<Rightarrow> pyval \<Rightarrow> pyval exec" where
  "new_splitter G lib n_split =
     bindE (load_global G ''StratifiedKFold'') (\<lambda>f.
     call lib f [] [(''n_splits'', n_split), (''shuffle'', PBool True)])"

text \<open>Line 15: \<^verbatim>\<open>logger = MNTSLogger['cv_grid_search_plot']\<close>\<close>

definition get_logger :: "globals \<Rightarrow> library \<Rightarrow> pyval exec" where
  "get_logger G lib =
     bindE (load_global G ''MNTSLogger'') (\<lambda>m.
     getitem lib m (PStr ''cv_grid_search_plot''))"

text \<open>
  Line 18:
  \<^verbatim>\<open>split = splitter.split(features.columns,
                           targets.loc[features.columns][targets.columns[0]])\<close>
\<close>

definition make_split :: "library \<Rightarrow> pyval \<Rightarrow> pyval \<Rightarrow> pyval \<Rightarrow> pyval exec" where
  "make_split lib splitter features targets =
     bindE (getattr lib splitter ''split'') (\<lambda>_.
     bindE (getattr lib features ''columns'') (\<lambda>samples.
     bindE (getattr lib targets ''loc'') (\<lambda>loc.
     bindE (getattr lib features ''columns'') (\<lambda>cols.
     bindE (getitem lib loc cols) (\<lambda>rows.
     bindE (getattr lib targets ''columns'') (\<lambda>tcols.
     bindE (getitem lib tcols (PInt 0)) (\<lambda>first_col.
     bindE (getitem lib rows first_col) (\<lambda>labels.
     call_method lib splitter ''split'' [samples, labels] []))))))))"

text \<open>
  Lines 19 and 20:
  \<^verbatim>\<open>grid = GridSearchCV(clf, n_jobs=5, param_grid=param_grid,
                      scoring='roc_auc', cv=split)\<close>
\<close>

definition new_grid_search ::
  "globals \<Rightarrow> library \<Rightarrow> pyval \<Rightarrow> pyval \<Rightarrow> pyval \<Rightarrow> pyval exec" where
  "new_grid_search G lib clf param_grid split =
     bindE (load_global G ''GridSearchCV'') (\<lambda>f.
     call lib f [clf]
       [(''n_jobs'', PInt 5), (''param_grid'', param_grid),
        (''scoring'', PStr ''roc_auc''), (''cv'', split)])"

text \<open>
  Line 21:
  \<^verbatim>\<open>X = grid.fit(features.T.to_numpy(),
               targets.loc[features.columns].to_numpy().ravel())\<close>
\<close>

definition fit_grid :: "library \<Rightarrow> pyval \<Rightarrow> pyval \<Rightarrow> pyval \<Rightarrow> pyval exec" where
  "fit_grid lib grid features targets =
     bindE (getattr lib grid ''fit'') (\<lambda>_.
     bindE (getattr lib features ''T'') (\<lambda>ft.
     bindE (getattr lib ft ''to_numpy'') (\<lambda>_.
     bindE (call_method lib ft ''to_numpy'' [] []) (\<lambda>xs.
     bindE (getattr lib targets ''loc'') (\<lambda>loc.
     bindE (getattr lib features ''columns'') (\<lambda>cols.
     bindE (getitem lib loc cols) (\<lambda>rows.
     bindE (getattr lib rows ''to_numpy'') (\<lambda>_.
     bindE (call_method lib rows ''to_numpy'' [] []) (\<lambda>arr.
     bindE (getattr lib arr ''ravel'') (\<lambda>_.
     bindE (call_method lib arr ''ravel'' [] []) (\<lambda>ys.
     call_method lib grid ''fit'' [xs, ys] [])))))))))))"

text \<open>Line 22: \<^verbatim>\<open>cvres = pd.DataFrame(grid.cv_results_)\<close>\<close>

definition cv_results_table :: "globals \<Rightarrow> library \<Rightarrow> pyval \<Rightarrow> pyval exec" where
  "cv_results_table G lib grid =
     bindE (load_global G ''pd'') (\<lambda>pd.
     bindE (getattr lib pd ''DataFrame'') (\<lambda>_.
     bindE (getattr lib grid ''cv_results_'') (\<lambda>res.
     call_method lib pd ''DataFrame'' [res] [])))"

text \<open>
  Line 23: \<^verbatim>\<open>df_curves.append(cvres)\<close>. The function never assigns \<open>df_curves\<close>,
  so the name is a global one.
\<close>

definition append_cvres :: "globals \<Rightarrow> library \<Rightarrow> pyval \<Rightarrow> pyval exec" where
  "append_cvres G lib cvres =
     bindE (load_global G ''df_curves'') (\<lambda>acc.
     bindE (getattr lib acc ''append'') (\<lambda>_.
     call_method lib acc ''append'' [cvres] []))"

text \<open>Lines 18 to 22 of one repetition: the split, the grid search and its result table.\<close>

definition fit_repetition ::
  "globals \<Rightarrow> library \<Rightarrow> pyval \<Rightarrow> pyval \<Rightarrow> pyval \<Rightarrow> pyval \<Rightarrow> pyval \<Rightarrow> pyval exec" where
  "fit_repetition G lib clf param_grid features targets splitter =
     bindE (make_split lib splitter features targets) (\<lambda>split.
     bindE (new_grid_search G lib clf param_grid split) (\<lambda>grid.
     bindE (fit_grid lib grid features targets) (\<lambda>X.
     cv_results_table G lib grid)))"

text \<open>
  The body of the loop (lines 18 to 23). The state of the loop is the local list
  \<open>df_cvres\<close> of line 16; the body leaves it as it is.
\<close>

definition repetition ::
  "globals \<Rightarrow> library \<Rightarrow> pyval \<Rightarrow> pyval \<Rightarrow> pyval \<Rightarrow> pyval \<Rightarrow> pyval \<Rightarrow>
   nat \<Rightarrow> pyval list \<Rightarrow> (pyval list) exec" where
  "repetition G lib clf param_grid features targets splitter i df_cvres =
     bindE (fit_repetition G lib clf param_grid features targets splitter) (\<lambda>cvres.
     bindE (append_cvres G lib cvres) (\<lambda>_.
     retE df_cvres))"

text \<open>Line 25: \<^verbatim>\<open>df_cvres = pd.concat(df_cvres)\<close>\<close>

definition concat_results :: "globals \<Rightarrow> library \<Rightarrow> pyval list \<Rightarrow> pyval exec" where
  "concat_results G lib df_cvres =
     bindE (load_global G ''pd'') (\<lambda>pd.
     bindE (getattr lib pd ''concat'') (\<lambda>_.
     call_method lib pd ''concat'' [PList df_cvres] []))"

text \<open>Line 26: \<^verbatim>\<open>df_cvres = df_cvres.reset_index()\<close>\<close>

definition reset_row_index :: "library \<Rightarrow> pyval \<Rightarrow> pyval exec" where
  "reset_row_index lib df =
     bindE (getattr lib df ''reset_index'') (\<lambda>_.
     call_method lib df ''reset_index'' [] [])"

text \<open>Line 27: \<^verbatim>\<open>fig, ax = plt.subplots(1, 2, figsize=(10, 5), sharey=True)\<close>\<close>

definition make_axes :: "globals \<Rightarrow> library \<Rightarrow> (pyval \<times> pyval) exec" where
  "make_axes G lib =
     bindE (load_global G ''plt'') (\<lambda>plt.
     bindE (getattr lib plt ''subplots'') (\<lambda>_.
     bindE (call_method lib plt ''subplots'' [PInt 1, PInt 2]
              [(''figsize'', PTuple [PInt 10, PInt 5]), (''sharey'', PBool True)]) (\<lambda>r.
     unpack2 lib r)))"

text \<open>
  Lines 28 to 32:
  \<^verbatim>\<open>sns.lineplot(data=df_cvres, x='param_classification__alpha',
               y='mean_test_score', hue='param_classification__l1_ratio', ax=ax[0])\<close>
\<close>

definition lineplot_alpha :: "globals \<Rightarrow> library \<Rightarrow> pyval \<Rightarrow> pyval \<Rightarrow> pyval exec" where
  "lineplot_alpha G lib df ax =
     bindE (load_global G ''sns'') (\<lambda>sns.
     bindE (getattr lib sns ''lineplot'') (\<lambda>_.
     bindE (getitem lib ax (PInt 0)) (\<lambda>ax0.
     call_method lib sns ''lineplot'' []
       [(''data'', df),
        (''x'', PStr ''param_classification__alpha''),
        (''y'', PStr ''mean_test_score''),
        (''hue'', PStr ''param_classification__l1_ratio''),
        (''ax'', ax0)])))"

text \<open>
  Lines 33 to 37:
  \<^verbatim>\<open>sns.lineplot(data=df_cvres, x='param_classification__l1_ratio',
               y='mean_test_score', hue='param_classification__alpha', ax=ax[1])\<close>
\<close>

definition lineplot_l1_ratio :: "globals \<Rightarrow> library \<Rightarrow> pyval \<Rightarrow> pyval \<Rightarrow> pyval exec" where
  "lineplot_l1_ratio G lib df ax =
     bindE (load_global G ''sns'') (\<lambda>sns.
     bindE (getattr lib sns ''lineplot'') (\<lambda>_.
     bindE (getitem lib ax (PInt 1)) (\<lambda>ax1.
     call_method lib sns ''lineplot'' []
       [(''data'', df),
        (''x'', PStr ''param_classification__l1_ratio''),
        (''y'', PStr ''mean_test_score''),
        (''hue'', PStr ''param_classification__alpha''),
        (''ax'', ax1)])))"

text \<open>
  The function. It has no \<open>return\<close> statement and no \<open>try\<close>: a run that gets to
  the end returns None, and an exception leaves the function where it is raised.
\<close>

definition plot_performance_vs_hyperparams ::
  "globals \<Rightarrow> library \<Rightarrow> pyval \<Rightarrow> pyval \<Rightarrow> pyval \<Rightarrow> pyval \<Rightarrow> pyval \<Rightarrow> pyval \<Rightarrow> pyval exec" where
  "plot_performance_vs_hyperparams G lib clf param_grid features targets n_split n_fold =
     bindE (new_splitter G lib n_split) (\<lambda>splitter.
     bindE (get_logger G lib) (\<lambda>logger.
     bindE (range_count lib n_fold) (\<lambda>n.
     bindE (for_range n (repetition G lib clf param_grid features targets splitter) []) (\<lambda>df_cvres.
     bindE (concat_results G lib df_cvres) (\<lambda>df_cvres.
     bindE (reset_row_index lib df_cvres) (\<lambda>df_cvres.
     bindE (make_axes G lib) (\<lambda>(fig, ax).
     bindE (lineplot_alpha G lib df_cvres ax) (\<lambda>_.
     bindE (lineplot_l1_ratio G lib df_cvres ax) (\<lambda>_.
     retE PNone)))))))))"


text \<open>
  The function with line 23 reading \<^verbatim>\<open>df_cvres.append(cvres)\<close>, the list that line 16
  creates and line 25 concatenates. This variant is not in the repository; it is here
  to state what the rest of the function does when the accumulator is named
  consistently. Everything but the append is the source's.
\<close>

definition repetition_consistent ::
  "globals \<Rightarrow> library \<Rightarrow> pyval \<Rightarrow> pyval \<Rightarrow> pyval \<Rightarrow> pyval \<Rightarrow> pyval \<Rightarrow>
   nat \<Rightarrow> pyval list \<Rightarrow> (pyval list) exec" where
  "repetition_consistent G lib clf param_grid features targets splitter i df_cvres =
     bindE (fit_repetition G lib clf param_grid features targets splitter) (\<lambda>cvres.
     retE (df_cvres @ [cvres]))"

definition plot_performance_consistent ::
  "globals \<Rightarrow> library \<Rightarrow> pyval \<Rightarrow> pyval \<Rightarrow> pyval \<Rightarrow> pyval \<Rightarrow> pyval \<Rightarrow> pyval \<Rightarrow> pyval exec" where
  "plot_performance_consistent G lib clf param_grid features targets n_split n_fold =
     bindE (new_splitter G lib n_split) (\<lambda>splitter.
     bindE (get_logger G lib) (\<lambda>logger.
     bindE (range_count lib n_fold) (\<lambda>n.
     bindE (for_range n (repetition_consistent G lib clf param_grid features targets splitter) [])
       (\<lambda>df_cvres.
     bindE (concat_results G lib df_cvres) (\<lambda>df_cvres.
     bindE (reset_row_index lib df_cvres) (\<lambda>df_cvres.
     bindE (make_axes G lib) (\<lambda>(fig, ax).
     bindE (lineplot_alpha G lib df_cvres ax) (\<lambda>_.
     bindE (lineplot_l1_ratio G lib df_cvres ax) (\<lambda>_.
     retE PNone)))))))))"

text \<open>
  The run of the function up to the end of line 22 in the first repetition, and up
  to the end of line 27: the points just before the two names that no import binds.
\<close>

definition until_first_append ::
  "globals \<Rightarrow> library \<Rightarrow> pyval \<Rightarrow> pyval \<Rightarrow> pyval \<Rightarrow> pyval \<Rightarrow> pyval \<Rightarrow> pyval exec" where
  "until_first_append G lib clf param_grid features targets n_split =
     bindE (new_splitter G lib n_split) (\<lambda>splitter.
     bindE (get_logger G lib) (\<lambda>logger.
     fit_repetition G lib clf param_grid features targets splitter))"

definition until_plotting ::
  "globals \<Rightarrow> library \<Rightarrow> pyval \<Rightarrow> pyval \<Rightarrow> pyval \<Rightarrow> pyval \<Rightarrow> pyval \<Rightarrow> pyval \<Rightarrow>
   (pyval \<times> pyval) exec" where
  "until_plotting G lib clf param_grid features targets n_split n_fold =
     bindE (new_splitter G lib n_split) (\<lambda>splitter.
     bindE (get_logger G lib) (\<lambda>logger.
     bindE (range_count lib n_fold) (\<lambda>n.
     bindE (for_range n (repetition_consistent G lib clf param_grid features targets splitter) [])
       (\<lambda>df_cvres.
     bindE (concat_results G lib df_cvres) (\<lambda>df_cvres.
     bindE (reset_row_index lib df_cvres) (\<lambda>df_cvres.
     bindE (make_axes G lib) (\<lambda>(fig, ax).
     retE (df_cvres, ax))))))))"


text \<open>
  Lines 14 to 17 and, when the range of line 17 is not empty, lines 18 to 22 of the
  first repetition. The result is None when there is no repetition, and the table
  of line 22 otherwise.
\<close>

definition first_repetition ::
  "globals \<Rightarrow> library \<Rightarrow> pyval \<Rightarrow> pyval \<Rightarrow> pyval \<Rightarrow> pyval \<Rightarrow> pyval \<Rightarrow> pyval \<Rightarrow>
   (pyval option) exec" where
  "first_repetition G lib clf param_grid features targets n_split n_fold =
     bindE (new_splitter G lib n_split) (\<lambda>splitter.
     bindE (get_logger G lib) (\<lambda>logger.
     bindE (range_count lib n_fold) (\<lambda>n.
     if n = 0 then retE None
     else bindE (fit_repetition G lib clf param_grid features targets splitter) (\<lambda>cvres.
          retE (Some cvres)))))"

text \<open>Lines 25 to 37, for the list \<open>df_cvres\<close> that the loop leaves.\<close>

definition aggregate_and_plot :: "globals \<Rightarrow> library \<Rightarrow> pyval list \<Rightarrow> pyval exec" where
  "aggregate_and_plot G lib df_cvres =
     bindE (concat_results G lib df_cvres) (\<lambda>df_cvres.
     bindE (reset_row_index lib df_cvres) (\<lambda>df_cvres.
     bindE (make_axes G lib) (\<lambda>(fig, ax).
     bindE (lineplot_alpha G lib df_cvres ax) (\<lambda>_.
     bindE (lineplot_l1_ratio G lib df_cvres ax) (\<lambda>_.
     retE PNone)))))"


section \<open>The invocation under the main guard\<close>

text \<open>
  Lines 46 to 52, the dictionary literal, given the ElasticNet instance built at
  line 48:
  \<^verbatim>\<open>
  param_grid_dict = {
      'Elastic Net': {
          'classification': [linear_model.ElasticNet(tol=1E-4, max_iter=5500)],
          'classification__alpha': [0.02, 0.04, 0.06, 0.08, 0.1],
          'classification__l1_ratio': [0.0, 0.2, 0.4, 0.6, 0.8, 1.0]
      }
  }
  \<close>
\<close>

definition elastic_net_grid :: "pyval \<Rightarrow> pyval" where
  "elastic_net_grid en =
     PDict [(PStr ''classification'', PList [en]),
            (PStr ''classification__alpha'',
               PList [PFloat 2 (-2), PFloat 4 (-2), PFloat 6 (-2), PFloat 8 (-2), PFloat 1 (-1)]),
            (PStr ''classification__l1_ratio'',
               PList [PFloat 0 0, PFloat 2 (-1), PFloat 4 (-1), PFloat 6 (-1), PFloat 8 (-1),
                      PFloat 1 0])]"

definition param_grid_dict :: "pyval \<Rightarrow> pyval" where
  "param_grid_dict en = PDict [(PStr ''Elastic Net'', elastic_net_grid en)]"

text \<open>
  The signature: four parameters without a default, then \<open>n_split=7\<close> and
  \<open>n_fold=15\<close>. Positional arguments are bound to the parameters in order; a call
  that leaves a parameter without a default unbound, or gives too many arguments, is a
  TypeError before the body runs.
\<close>

fun invoke :: "globals \<Rightarrow> library \<Rightarrow> pyval list \<Rightarrow> pyval exec" where
  "invoke G lib [clf, param_grid, features, targets] =
     plot_performance_vs_hyperparams G lib clf param_grid features targets (PInt 7) (PInt 15)"
| "invoke G lib [clf, param_grid, features, targets, n_split] =
     plot_performance_vs_hyperparams G lib clf param_grid features targets n_split (PInt 15)"
| "invoke G lib [clf, param_grid, features, targets, n_split, n_fold] =
     plot_performance_vs_hyperparams G lib clf param_grid features targets n_split n_fold"
| "invoke G lib args = raiseE TypeError"

text \<open>
  A call of the value found under a name: the function of this module is invoked,
  anything else is a callable of a library.
\<close>

definition call_value :: "globals \<Rightarrow> library \<Rightarrow> pyval \<Rightarrow> pyval list \<Rightarrow> pyval exec" where
  "call_value G lib f args =
     (if f = PFunction ''plot_performance_vs_hyperparams'' then invoke G lib args
      else call lib f args [])"

text \<open>
  Lines 40 to 43:
  \<^verbatim>\<open>
  clf = pipeline.Pipeline([
      ('standardization', preprocessing.StandardScaler()),
      ('classification', 'passthrough')
  ])
  \<close>
\<close>

definition build_clf :: "globals \<Rightarrow> library \<Rightarrow> pyval exec" where
  "build_clf G lib =
     bindE (load_global G ''pipeline'') (\<lambda>pipeline.
     bindE (getattr lib pipeline ''Pipeline'') (\<lambda>_.
     bindE (load_global G ''preprocessing'') (\<lambda>preprocessing.
     bindE (getattr lib preprocessing ''StandardScaler'') (\<lambda>_.
     bindE (call_method lib preprocessing ''StandardScaler'' [] []) (\<lambda>scaler.
     call_method lib pipeline ''Pipeline''
       [PList [PTuple [PStr ''standardization'', scaler],
               PTuple [PStr ''classification'', PStr ''passthrough'']]] [])))))"

text \<open>Lines 46 to 52: the ElasticNet instance of line 48, then the dictionary.\<close>

definition build_param_grid_dict :: "globals \<Rightarrow> library \<Rightarrow> pyval exec" where
  "build_param_grid_dict G lib =
     bindE (load_global G ''linear_model'') (\<lambda>linear_model.
     bindE (getattr lib linear_model ''ElasticNet'') (\<lambda>_.
     bindE (call_method lib linear_model ''ElasticNet'' []
              [(''tol'', PFloat 1 (-4)), (''max_iter'', PInt 5500)]) (\<lambda>en.
     retE (param_grid_dict en))))"

text \<open>
  Lines 40 to 52 and the evaluation of the callee and the arguments of line 53,
  \<^verbatim>\<open>plot_performance_vs_hyperparams(clf, param_grid_dict)\<close>. The two assignments bind
  global names of the module. The result is the module's globals at the call, the
  callee and the list of positional arguments.
\<close>

definition main_call :: "globals \<Rightarrow> library \<Rightarrow> (globals \<times> pyval \<times> pyval list) exec" where
  "main_call G lib =
     bindE (build_clf G lib) (\<lambda>clf.
     bindE (build_param_grid_dict (G(''clf'' \<mapsto> clf)) lib) (\<lambda>d.
     bindE (load_global (G(''clf'' \<mapsto> clf, ''param_grid_dict'' \<mapsto> d))
              ''plot_performance_vs_hyperparams'') (\<lambda>f.
     bindE (load_global (G(''clf'' \<mapsto> clf, ''param_grid_dict'' \<mapsto> d)) ''clf'') (\<lambda>a1.
     bindE (load_global (G(''clf'' \<mapsto> clf, ''param_grid_dict'' \<mapsto> d)) ''param_grid_dict'')
       (\<lambda>a2.
     retE (G(''clf'' \<mapsto> clf, ''param_grid_dict'' \<mapsto> d), f, [a1, a2]))))))"

text \<open>Lines 39 to 53: the statements under the main guard.\<close>

definition main :: "globals \<Rightarrow> library \<Rightarrow> pyval exec" where
  "main G lib = bindE (main_call G lib) (\<lambda>(G', f, args). call_value G' lib f args)"

text \<open>
  Modelled from the spec: a hyperparameter grid is a "mapping from parameter name to
  the set of candidate values to try", and grid search is the "evaluation of a model
  across a Cartesian product of hyperparameter candidate values". \<open>param_combinations\<close>
  enumerates that product, and is None for a value that is not such a mapping.
\<close>

fun candidate_list :: "pyval \<Rightarrow> pyval list option" where
  "candidate_list (PList xs) = Some xs"
| "candidate_list (PTuple xs) = Some xs"
| "candidate_list v = None"

fun product_grid :: "(pyval \<times> pyval) list \<Rightarrow> (string \<times> pyval) list list option" where
  "product_grid [] = Some [[]]"
| "product_grid ((PStr k, v) # rest) =
     (case candidate_list v of
        None \<Rightarrow> None
      | Some cs \<Rightarrow>
          (case product_grid rest of
             None \<Rightarrow> None
           | Some combos \<Rightarrow> Some (concat (map (\<lambda>c. map (\<lambda>combo. (k, c) # combo) combos) cs))))"
| "product_grid (kv # rest) = None"

fun param_combinations :: "pyval \<Rightarrow> (string \<times> pyval) list list option" where
  "param_combinations (PDict kvs) = product_grid kvs"
| "param_combinations v = None"


section \<open>Reading a trace\<close>

definition is_method_call :: "string \<Rightarrow> request \<Rightarrow> bool" where
  "is_method_call name q = (case q of CallMethod v a args kwargs \<Rightarrow> a = name | _ \<Rightarrow> False)"

definition requests :: "event list \<Rightarrow> request list" where
  "requests t = map fst t"

definition failed :: "event \<Rightarrow> bool" where
  "failed ev = (case snd ev of Inl e \<Rightarrow> True | Inr v \<Rightarrow> False)"


text \<open>The result and the trace of a run that starts with no history.\<close>

definition outcome :: "'a exec \<Rightarrow> pyexn + 'a" where
  "outcome m = fst (m [])"

definition trace :: "'a exec \<Rightarrow> event list" where
  "trace m = snd (m [])"

text \<open>A run that never returns a value, whatever happened before.\<close>

definition raises :: "'a exec \<Rightarrow> bool" where
  "raises m = (\<forall>t. \<exists>e. fst (m t) = Inl e)"

text \<open>
  A run that extends the history, with at most \<open>n\<close> new requests of the kind \<open>P\<close>.
\<close>

definition at_most :: "(request \<Rightarrow> bool) \<Rightarrow> nat \<Rightarrow> 'a exec \<Rightarrow> bool" where
  "at_most P n m = (\<forall>t. \<exists>new. snd (m t) = t @ new \<and> length (filter P (requests new)) \<le> n)"

text \<open>
  A history without a failed request, and a run that is settled: if a request of
  its trace failed, that request is the last one and its exception is the result.
\<close>

definition clean :: "event list \<Rightarrow> bool" where
  "clean t = list_all (\<lambda>ev. \<not> failed ev) t"

definition settled :: "(pyexn + 'a) \<times> event list \<Rightarrow> bool" where
  "settled rt =
     (case fst rt of
        Inr x \<Rightarrow> clean (snd rt)
      | Inl e \<Rightarrow> clean (snd rt) \<or>
                 (snd rt \<noteq> [] \<and> clean (butlast (snd rt)) \<and> snd (last (snd rt)) = Inl e))"

definition propagates :: "'a exec \<Rightarrow> bool" where
  "propagates m = (\<forall>t. clean t \<longrightarrow> settled (m t))"

text \<open>A concatenation request other than \<^verbatim>\<open>pd.concat([])\<close>.\<close>

definition stray_concat :: "request \<Rightarrow> bool" where
  "stray_concat q =
     (is_method_call ''concat'' q \<and> q \<noteq> CallMethod (PModule ''pandas'') ''concat'' [PList []] [])"


section \<open>Sample environments for concrete runs\<close>

text \<open>
  Some of the names the two packages export, enough to run the module: the
  submodules \<open>pipeline\<close>, \<open>preprocessing\<close> and \<open>linear_model\<close> of scikit-learn and
  the splitters and searches of \<open>sklearn.model_selection\<close>.
\<close>

definition sklearn_exports :: "(string \<times> pyval) list" where
  "sklearn_exports =
     [(''clone'', PImported ''sklearn'' ''clone''),
      (''linear_model'', PModule ''sklearn.linear_model''),
      (''model_selection'', PModule ''sklearn.model_selection''),
      (''pipeline'', PModule ''sklearn.pipeline''),
      (''preprocessing'', PModule ''sklearn.preprocessing'')]"

definition model_selection_exports :: "(string \<times> pyval) list" where
  "model_selection_exports =
     [(''GridSearchCV'', PImported ''sklearn.model_selection'' ''GridSearchCV''),
      (''KFold'', PImported ''sklearn.model_selection'' ''KFold''),
      (''StratifiedKFold'', PImported ''sklearn.model_selection'' ''StratifiedKFold''),
      (''train_test_split'', PImported ''sklearn.model_selection'' ''train_test_split'')]"

definition sample_globals :: globals where
  "sample_globals = module_globals sklearn_exports model_selection_exports"

text \<open>
  Two libraries. The permissive one answers every request with a fresh object (a
  pair of them when iterated). The strict one does the same, but raises ValueError
  as scikit-learn does for a splitter of fewer than two folds and as pandas does for
  a concatenation of no tables.
\<close>

definition permissive_library :: library where
  "permissive_library t q =
     (case q of
        Iterate v \<Rightarrow> Inr (PTuple [PObj (2 * length t), PObj (2 * length t + 1)])
      | Index v \<Rightarrow> Inr (PInt 0)
      | _ \<Rightarrow> Inr (PObj (2 * length t)))"

definition too_few_splits :: "(string \<times> pyval) list \<Rightarrow> bool" where
  "too_few_splits kwargs = (case map_of kwargs ''n_splits'' of Some (PInt k) \<Rightarrow> k < 2 | _ \<Rightarrow> False)"

definition strict_library :: library where
  "strict_library t q =
     (case q of
        Call f args kwargs \<Rightarrow>
          (if f = PImported ''sklearn.model_selection'' ''StratifiedKFold'' \<and> too_few_splits kwargs
           then Inl ValueError else permissive_library t q)
      | CallMethod v a args kwargs \<Rightarrow>
          (if v = PModule ''pandas'' \<and> a = ''concat'' \<and> args = [PList []]
           then Inl ValueError else permissive_library t q)
      | _ \<Rightarrow> permissive_library t q)"

text \<open>
  The inputs of the spec's end-to-end scenario: a pipeline, a table of 5 features by
  20 samples and a table of 20 labels (opaque objects of the libraries), and the grid
  \<^verbatim>\<open>{alpha: [0.02, 0.1], l1_ratio: [0.0, 1.0]}\<close>.
\<close>

definition scenario_clf :: pyval where
  "scenario_clf = PObj 1"

definition scenario_features :: pyval where
  "scenario_features = PObj 3"

definition scenario_targets :: pyval where
  "scenario_targets = PObj 5"

definition scenario_grid :: pyval where
  "scenario_grid =
     PDict [(PStr ''classification__alpha'', PList [PFloat 2 (-2), PFloat 1 (-1)]),
            (PStr ''classification__l1_ratio'', PList [PFloat 0 0, PFloat 1 0])]"


section \<open>The exception monad\<close>

lemma bindE_retE [simp]: "bindE (retE x) f = f x"
  by (simp add: bindE_def retE_def)

lemma bindE_raiseE [simp]: "bindE (raiseE e) f = raiseE e"
  by (simp add: bindE_def raiseE_def)

lemma bindE_assoc: "bindE (bindE m f) g = bindE m (\<lambda>x. bindE (f x) g)"
  by (auto simp: bindE_def fun_eq_iff split: prod.splits sum.splits)

lemma bindE_then_raise:
  "bindE m (\<lambda>x. raiseE e) t =
     (case m t of (Inl e', t') \<Rightarrow> (Inl e', t') | (Inr x, t') \<Rightarrow> (Inl e, t'))"
  by (simp add: bindE_def raiseE_def)

lemma raises_raiseE: "raises (raiseE e)"
  by (simp add: raises_def raiseE_def)

lemma raises_bindL: "raises m \<Longrightarrow> raises (bindE m f)"
  unfolding raises_def bindE_def
proof
  fix t assume a: "\<forall>t. \<exists>e. fst (m t) = Inl e"
  then obtain e where "fst (m t) = Inl e" by blast
  then show "\<exists>e. fst (case m t of (Inl e, t') \<Rightarrow> (Inl e, t') | (Inr x, t') \<Rightarrow> f x t') = Inl e"
    by (cases "m t") auto
qed

lemma raises_bindR: "(\<And>x. raises (f x)) \<Longrightarrow> raises (bindE m f)"
  unfolding raises_def bindE_def
  by (auto split: prod.splits sum.splits)

lemma at_most_retE: "at_most P n (retE x)"
  by (simp add: at_most_def retE_def requests_def)

lemma at_most_raiseE: "at_most P n (raiseE e)"
  by (simp add: at_most_def raiseE_def requests_def)

lemma at_most_request: "(P q \<Longrightarrow> 1 \<le> n) \<Longrightarrow> at_most P n (request lib q)"
  by (auto simp: at_most_def request_def requests_def)

lemma at_most_bind:
  assumes "at_most P a m" and "\<And>x. at_most P b (f x)"
  shows "at_most P (a + b) (bindE m f)"
  unfolding at_most_def
proof
  fix t
  from assms(1) obtain n1 where n1: "snd (m t) = t @ n1" "length (filter P (requests n1)) \<le> a"
    unfolding at_most_def by blast
  show "\<exists>new. snd (bindE m f t) = t @ new \<and> length (filter P (requests new)) \<le> a + b"
  proof (cases "m t")
    case (Pair r t')
    with n1 have t': "t' = t @ n1" by simp
    show ?thesis
    proof (cases r)
      case (Inl e)
      with Pair t' n1 show ?thesis by (auto simp: bindE_def)
    next
      case (Inr x)
      from assms(2)[of x] obtain n2 where
        n2: "snd (f x t') = t' @ n2" "length (filter P (requests n2)) \<le> b"
        unfolding at_most_def by blast
      with Pair Inr t' n1 show ?thesis
        by (auto simp: bindE_def requests_def intro!: exI[of _ "n1 @ n2"])
    qed
  qed
qed

lemma at_most_bind0L: "at_most P 0 m \<Longrightarrow> (\<And>x. at_most P n (f x)) \<Longrightarrow> at_most P n (bindE m f)"
  using at_most_bind[of P 0 m n f] by simp

lemma at_most_bind0R: "at_most P n m \<Longrightarrow> (\<And>x. at_most P 0 (f x)) \<Longrightarrow> at_most P n (bindE m f)"
  using at_most_bind[of P n m 0 f] by simp

lemma at_most_raises:
  assumes "at_most P n m" and "raises m"
  shows "at_most P n (bindE m f)"
  unfolding at_most_def
proof
  fix t
  from assms(2) obtain e where "fst (m t) = Inl e" unfolding raises_def by blast
  then have "snd (bindE m f t) = snd (m t)"
    by (cases "m t") (auto simp: bindE_def)
  with assms(1) show "\<exists>new. snd (bindE m f t) = t @ new \<and> length (filter P (requests new)) \<le> n"
    unfolding at_most_def by simp
qed

lemma at_most_trace: "at_most P n m \<Longrightarrow> length (filter P (requests (trace m))) \<le> n"
  unfolding at_most_def trace_def
proof -
  assume "\<forall>t. \<exists>new. snd (m t) = t @ new \<and> length (filter P (requests new)) \<le> n"
  then obtain new where "snd (m []) = [] @ new" "length (filter P (requests new)) \<le> n" by blast
  then show "length (filter P (requests (snd (m [])))) \<le> n" by simp
qed

lemma clean_append: "clean (t @ [(q, r)]) = (clean t \<and> (\<exists>v. r = Inr v))"
  by (cases r) (auto simp: clean_def failed_def)

lemma propagates_retE: "propagates (retE x)"
  by (simp add: propagates_def settled_def retE_def)

lemma propagates_raiseE: "propagates (raiseE e)"
  by (simp add: propagates_def settled_def raiseE_def)

lemma propagates_request: "propagates (request lib q)"
  unfolding propagates_def settled_def request_def
  by (simp add: clean_append split: sum.splits)

lemma propagates_bindE:
  assumes "propagates m" and "\<And>x. propagates (f x)"
  shows "propagates (bindE m f)"
  unfolding propagates_def
proof (intro allI impI)
  fix t assume c: "clean t"
  with assms(1) have s: "settled (m t)"
    unfolding propagates_def by simp
  show "settled (bindE m f t)"
  proof (cases "m t")
    case (Pair r t')
    show ?thesis
    proof (cases r)
      case (Inl e)
      with Pair s show ?thesis
        by (simp add: bindE_def settled_def)
    next
      case (Inr x)
      with Pair s have "clean t'"
        by (simp add: settled_def)
      with assms(2)[of x] have "settled (f x t')"
        unfolding propagates_def by simp
      with Pair Inr show ?thesis by (simp add: bindE_def)
    qed
  qed
qed

subsection \<open>The operations of the module\<close>

lemma propagates_load_global: "propagates (load_global G x)"
  by (simp add: load_global_def propagates_retE propagates_raiseE split: option.split)

lemma propagates_call: "propagates (call lib f args kwargs)"
  by (simp add: call_def propagates_request)

lemma propagates_getattr: "propagates (getattr lib v a)"
  by (simp add: getattr_def propagates_request)

lemma propagates_call_method: "propagates (call_method lib v a args kwargs)"
  by (simp add: call_method_def propagates_request)

lemma propagates_getitem: "propagates (getitem lib v k)"
  by (simp add: getitem_def propagates_request)

lemma propagates_sequence_result:
  "propagates (case r of PTuple xs \<Rightarrow> retE xs | PList xs \<Rightarrow> retE xs | _ \<Rightarrow> raiseE TypeError)"
  by (cases r) (simp_all add: propagates_retE propagates_raiseE)

lemma propagates_iterate: "propagates (iterate lib v)"
  unfolding iterate_def
  by (cases v)
     (simp_all add: propagates_retE propagates_raiseE propagates_bindE propagates_request
        propagates_sequence_result)

lemma propagates_pair_result:
  "propagates (case xs of [a, b] \<Rightarrow> retE (a, b) | _ \<Rightarrow> raiseE ValueError)"
  by (simp add: propagates_retE propagates_raiseE split: list.split)

lemma propagates_unpack2: "propagates (unpack2 lib v)"
  unfolding unpack2_def
  by (intro propagates_bindE propagates_iterate propagates_pair_result)

lemma propagates_index_result:
  "propagates (case r of PInt n \<Rightarrow> retE (nat n) | _ \<Rightarrow> raiseE TypeError)"
  by (cases r) (simp_all add: propagates_retE propagates_raiseE)

lemma propagates_range_count: "propagates (range_count lib v)"
  unfolding range_count_def
  by (cases v)
     (simp_all add: propagates_retE propagates_raiseE propagates_bindE propagates_request
        propagates_index_result)

lemma propagates_case_prod: "(\<And>a b. propagates (f a b)) \<Longrightarrow> propagates (case p of (a, b) \<Rightarrow> f a b)"
  by (cases p) simp

lemma propagates_for_range_from:
  "(\<And>i s. propagates (body i s)) \<Longrightarrow> propagates (for_range_from i k body s)"
  by (induction k arbitrary: i s) (simp_all add: propagates_retE propagates_bindE)

lemma propagates_for_range:
  "(\<And>i s. propagates (body i s)) \<Longrightarrow> propagates (for_range n body s)"
  by (simp add: for_range_def propagates_for_range_from)

lemmas propagates_intros =
  propagates_bindE propagates_retE propagates_raiseE propagates_load_global propagates_call
  propagates_getattr propagates_call_method propagates_getitem propagates_unpack2
  propagates_range_count propagates_case_prod propagates_for_range

lemma propagates_plot:
  "propagates (plot_performance_vs_hyperparams G lib clf param_grid features targets n_split n_fold)"
  unfolding plot_performance_vs_hyperparams_def new_splitter_def get_logger_def repetition_def
    fit_repetition_def make_split_def new_grid_search_def fit_grid_def cv_results_table_def
    append_cvres_def concat_results_def reset_row_index_def make_axes_def lineplot_alpha_def
    lineplot_l1_ratio_def
  by (intro propagates_intros)

lemma clean_no_failure: "clean (p @ (q, Inl e) # rest) = False"
  by (simp add: clean_def failed_def)

lemma settled_failure:
  assumes "settled (r, p @ (q, Inl e) # rest)"
  shows "rest = [] \<and> r = Inl e"
proof (cases r)
  case (Inr x)
  with assms show ?thesis by (simp add: settled_def clean_no_failure)
next
  case (Inl e')
  with assms have b: "clean (butlast (p @ (q, Inl e) # rest))"
    and l: "snd (last (p @ (q, Inl e) # rest)) = Inl e'"
    by (simp_all add: settled_def clean_no_failure)
  show ?thesis
  proof (cases rest rule: rev_cases)
    case Nil
    with l Inl show ?thesis by simp
  next
    case (snoc ys y)
    then have "butlast (p @ (q, Inl e) # rest) = p @ (q, Inl e) # ys"
      by (simp add: butlast_append)
    with b show ?thesis by (simp add: clean_no_failure)
  qed
qed

lemma propagates_run:
  assumes "propagates m" and "trace m = p @ (q, Inl e) # rest"
  shows "rest = [] \<and> outcome m = Inl e"
proof -
  have "clean []" by (simp add: clean_def)
  with assms(1) have "settled (m [])" unfolding propagates_def by simp
  then have "settled (outcome m, trace m)" by (simp add: outcome_def trace_def)
  with assms(2) show ?thesis using settled_failure by metis
qed

subsection \<open>Counting requests\<close>

lemma at_most_load_global: "at_most P n (load_global G x)"
  by (simp add: load_global_def at_most_retE at_most_raiseE split: option.split)

lemma at_most_call: "at_most (is_method_call name) n (call lib f args kwargs)"
  unfolding call_def by (rule at_most_request) (simp add: is_method_call_def)

lemma at_most_getattr: "at_most (is_method_call name) n (getattr lib v a)"
  unfolding getattr_def by (rule at_most_request) (simp add: is_method_call_def)

lemma at_most_getitem: "at_most (is_method_call name) n (getitem lib v k)"
  unfolding getitem_def by (rule at_most_request) (simp add: is_method_call_def)

lemma at_most_other_method:
  "a \<noteq> name \<Longrightarrow> at_most (is_method_call name) n (call_method lib v a args kwargs)"
  unfolding call_method_def by (rule at_most_request) (simp add: is_method_call_def)

lemma at_most_one_method: "at_most (is_method_call name) 1 (call_method lib v a args kwargs)"
  unfolding call_method_def by (rule at_most_request) simp

lemma at_most_sequence_result:
  "at_most P n (case r of PTuple xs \<Rightarrow> retE xs | PList xs \<Rightarrow> retE xs | _ \<Rightarrow> raiseE TypeError)"
  by (cases r) (simp_all add: at_most_retE at_most_raiseE)

lemma at_most_iterate: "at_most (is_method_call name) 0 (iterate lib v)"
  unfolding iterate_def
  by (cases v)
     (auto simp: at_most_retE at_most_raiseE at_most_sequence_result is_method_call_def
        intro!: at_most_bind0L at_most_request)

lemma at_most_pair_result:
  "at_most P n (case xs of [a, b] \<Rightarrow> retE (a, b) | _ \<Rightarrow> raiseE ValueError)"
  by (simp add: at_most_retE at_most_raiseE split: list.split)

lemma at_most_unpack2: "at_most (is_method_call name) 0 (unpack2 lib v)"
  unfolding unpack2_def
  by (intro at_most_bind0L at_most_iterate at_most_pair_result)

lemma at_most_index_result:
  "at_most P n (case r of PInt n \<Rightarrow> retE (nat n) | _ \<Rightarrow> raiseE TypeError)"
  by (cases r) (simp_all add: at_most_retE at_most_raiseE)

lemma at_most_range_count: "at_most (is_method_call name) 0 (range_count lib v)"
  unfolding range_count_def
  by (cases v)
     (auto simp: at_most_retE at_most_raiseE at_most_index_result is_method_call_def
        intro!: at_most_bind0L at_most_request)

lemma at_most_case_prod: "(\<And>a b. at_most P n (f a b)) \<Longrightarrow> at_most P n (case p of (a, b) \<Rightarrow> f a b)"
  by (cases p) simp

lemma at_most_for_range_from:
  "(\<And>i s. at_most P 0 (body i s)) \<Longrightarrow> at_most P 0 (for_range_from i k body s)"
  by (induction k arbitrary: i s) (simp_all add: at_most_retE at_most_bind0L)

lemmas at_most_intros =
  at_most_bind0L at_most_retE at_most_raiseE at_most_load_global at_most_call at_most_getattr
  at_most_getitem at_most_unpack2 at_most_range_count at_most_case_prod

lemma quiet_new_splitter: "at_most (is_method_call name) 0 (new_splitter G lib n_split)"
  unfolding new_splitter_def by (intro at_most_intros)

lemma quiet_get_logger: "at_most (is_method_call name) 0 (get_logger G lib)"
  unfolding get_logger_def by (intro at_most_intros)

lemma one_make_split: "at_most (is_method_call name) 1 (make_split lib splitter features targets)"
  unfolding make_split_def
  by (intro at_most_bind0L at_most_getattr at_most_getitem at_most_one_method)

lemma quiet_make_split:
  "name \<noteq> ''split'' \<Longrightarrow> at_most (is_method_call name) 0 (make_split lib splitter features targets)"
  unfolding make_split_def
  by (intro at_most_intros at_most_other_method) simp

lemma quiet_new_grid_search:
  "at_most (is_method_call name) 0 (new_grid_search G lib clf param_grid split)"
  unfolding new_grid_search_def by (intro at_most_intros)

lemma quiet_fit_grid:
  "name \<notin> {''to_numpy'', ''ravel'', ''fit''} \<Longrightarrow>
   at_most (is_method_call name) 0 (fit_grid lib grid features targets)"
  unfolding fit_grid_def
  by (intro at_most_intros at_most_other_method) auto

lemma quiet_cv_results_table:
  "name \<noteq> ''DataFrame'' \<Longrightarrow> at_most (is_method_call name) 0 (cv_results_table G lib grid)"
  unfolding cv_results_table_def
  by (intro at_most_intros at_most_other_method) simp

lemma quiet_append_cvres:
  "name \<noteq> ''append'' \<Longrightarrow> at_most (is_method_call name) 0 (append_cvres G lib cvres)"
  unfolding append_cvres_def
  by (intro at_most_intros at_most_other_method) simp

lemma quiet_concat_results:
  "name \<noteq> ''concat'' \<Longrightarrow> at_most (is_method_call name) 0 (concat_results G lib df_cvres)"
  unfolding concat_results_def
  by (intro at_most_intros at_most_other_method) simp

lemma quiet_reset_row_index:
  "name \<noteq> ''reset_index'' \<Longrightarrow> at_most (is_method_call name) 0 (reset_row_index lib df)"
  unfolding reset_row_index_def
  by (intro at_most_intros at_most_other_method) simp

lemma quiet_make_axes:
  "name \<noteq> ''subplots'' \<Longrightarrow> at_most (is_method_call name) 0 (make_axes G lib)"
  unfolding make_axes_def
  by (intro at_most_intros at_most_other_method) simp

lemma quiet_lineplot_alpha:
  "name \<noteq> ''lineplot'' \<Longrightarrow> at_most (is_method_call name) 0 (lineplot_alpha G lib df ax)"
  unfolding lineplot_alpha_def
  by (intro at_most_intros at_most_other_method) simp

lemma quiet_lineplot_l1_ratio:
  "name \<noteq> ''lineplot'' \<Longrightarrow> at_most (is_method_call name) 0 (lineplot_l1_ratio G lib df ax)"
  unfolding lineplot_l1_ratio_def
  by (intro at_most_intros at_most_other_method) simp

lemma quiet_fit_repetition:
  "name \<notin> {''split'', ''to_numpy'', ''ravel'', ''fit'', ''DataFrame''} \<Longrightarrow>
   at_most (is_method_call name) 0 (fit_repetition G lib clf param_grid features targets splitter)"
  unfolding fit_repetition_def
  by (intro at_most_bind0L quiet_make_split quiet_new_grid_search quiet_fit_grid
        quiet_cv_results_table) auto

lemma one_split_fit_repetition:
  "at_most (is_method_call ''split'') 1
     (fit_repetition G lib clf param_grid features targets splitter)"
  unfolding fit_repetition_def
  by (intro at_most_bind0R one_make_split at_most_bind0L quiet_new_grid_search quiet_fit_grid
        quiet_cv_results_table) auto

lemma quiet_repetition:
  "name \<notin> {''split'', ''to_numpy'', ''ravel'', ''fit'', ''DataFrame'', ''append''} \<Longrightarrow>
   at_most (is_method_call name) 0 (repetition G lib clf param_grid features targets splitter i s)"
  unfolding repetition_def
  by (intro at_most_bind0L quiet_fit_repetition quiet_append_cvres at_most_retE) auto

lemma quiet_repetition_consistent:
  "name \<notin> {''split'', ''to_numpy'', ''ravel'', ''fit'', ''DataFrame''} \<Longrightarrow>
   at_most (is_method_call name) 0
     (repetition_consistent G lib clf param_grid features targets splitter i s)"
  unfolding repetition_consistent_def
  by (intro at_most_bind0L quiet_fit_repetition at_most_retE) auto

subsection \<open>Names that no import binds\<close>

lemma module_globals_unbound:
  assumes "\<not> exports sklearn_star x" and "\<not> exports model_selection_star x"
    and "x \<notin> {''np'', ''plt'', ''MNTSLogger'', ''pd'', ''plot_performance_vs_hyperparams''}"
  shows "module_globals sklearn_star model_selection_star x = None"
proof -
  from assms(1,2) have "map_of sklearn_star x = None" "map_of model_selection_star x = None"
    by (simp_all add: exports_def map_of_eq_None_iff)
  with assms(3) show ?thesis
    by (simp add: module_globals_def map_add_def)
qed

lemma module_globals_pd: "module_globals sklearn_star model_selection_star ''pd'' = Some (PModule ''pandas'')"
  by (simp add: module_globals_def)

lemma outcome_then_raise:
  "outcome (bindE m (\<lambda>x. raiseE e)) = (case outcome m of Inl e' \<Rightarrow> Inl e' | Inr x \<Rightarrow> Inl e)"
  by (simp add: outcome_def bindE_then_raise split: prod.split sum.split)

lemma trace_then_raise: "trace (bindE m (\<lambda>x. raiseE e)) = trace m"
  by (simp add: trace_def bindE_then_raise split: prod.split sum.split)

lemma raises_outcome: "raises m \<Longrightarrow> \<exists>e. outcome m = Inl e"
  by (simp add: raises_def outcome_def)

lemma at_most_none: "at_most P 0 m \<Longrightarrow> filter P (requests (trace m)) = []"
  using at_most_trace[of P 0 m] by simp

lemma repetition_unbound:
  "G ''df_curves'' = None \<Longrightarrow>
   repetition G lib clf param_grid features targets splitter i s =
     bindE (fit_repetition G lib clf param_grid features targets splitter)
       (\<lambda>cvres. raiseE (NameError ''df_curves''))"
  by (simp add: repetition_def append_cvres_def load_global_def)

lemma plot_unbound_accumulator:
  assumes "G ''df_curves'' = None" and "1 \<le> n"
  shows "plot_performance_vs_hyperparams G lib clf param_grid features targets n_split (PInt n) =
           bindE (until_first_append G lib clf param_grid features targets n_split)
             (\<lambda>cvres. raiseE (NameError ''df_curves''))"
proof -
  from assms(2) obtain k where k: "nat n = Suc k"
    by (cases "nat n") simp_all
  from assms(1) show ?thesis
    by (simp add: plot_performance_vs_hyperparams_def until_first_append_def range_count_def
          for_range_def k repetition_unbound bindE_assoc)
qed

lemma lineplot_alpha_unbound:
  "G ''sns'' = None \<Longrightarrow> lineplot_alpha G lib df ax = raiseE (NameError ''sns'')"
  by (simp add: lineplot_alpha_def load_global_def)

lemma plot_consistent_unbound:
  assumes "G ''sns'' = None"
  shows "plot_performance_consistent G lib clf param_grid features targets n_split n_fold =
           bindE (until_plotting G lib clf param_grid features targets n_split n_fold)
             (\<lambda>r. raiseE (NameError ''sns''))"
  using assms
  by (simp add: plot_performance_consistent_def until_plotting_def
        lineplot_alpha_unbound bindE_assoc split_def)

lemma raises_case_prod: "(\<And>a b. raises (f a b)) \<Longrightarrow> raises (case p of (a, b) \<Rightarrow> f a b)"
  by (cases p) simp

lemma raises_plot:
  assumes "G ''sns'' = None"
  shows "raises (plot_performance_vs_hyperparams G lib clf param_grid features targets n_split n_fold)"
  unfolding plot_performance_vs_hyperparams_def lineplot_alpha_unbound[of G, OF assms] bindE_raiseE
  by (intro raises_bindR raises_case_prod raises_raiseE)

lemma no_lineplot_plot:
  assumes "G ''sns'' = None"
  shows "at_most (is_method_call ''lineplot'') 0
           (plot_performance_vs_hyperparams G lib clf param_grid features targets n_split n_fold)"
  unfolding plot_performance_vs_hyperparams_def for_range_def
    lineplot_alpha_unbound[of G, OF assms] bindE_raiseE
  by (intro at_most_bind0L at_most_case_prod at_most_for_range_from quiet_new_splitter
        quiet_get_logger at_most_range_count quiet_repetition quiet_concat_results
        quiet_reset_row_index quiet_make_axes at_most_raiseE; simp)

lemma no_lineplot_until_plotting:
  "at_most (is_method_call ''lineplot'') 0
     (until_plotting G lib clf param_grid features targets n_split n_fold)"
  unfolding until_plotting_def for_range_def
  by (intro at_most_bind0L at_most_case_prod at_most_for_range_from quiet_new_splitter
        quiet_get_logger at_most_range_count quiet_repetition_consistent quiet_concat_results
        quiet_reset_row_index quiet_make_axes at_most_retE; simp)

lemma no_concat_until_first_append:
  "at_most (is_method_call ''concat'') 0
     (until_first_append G lib clf param_grid features targets n_split)"
  unfolding until_first_append_def
  by (intro at_most_bind0L quiet_new_splitter quiet_get_logger quiet_fit_repetition) simp


subsection \<open>The accumulator of the loop\<close>

lemma at_most_weaken:
  assumes "\<And>q. P' q \<Longrightarrow> P q" and "at_most P 0 m"
  shows "at_most P' 0 m"
  unfolding at_most_def
proof
  fix t
  from assms(2) obtain new where new: "snd (m t) = t @ new" "length (filter P (requests new)) \<le> 0"
    unfolding at_most_def by blast
  then have "\<forall>q \<in> set (requests new). \<not> P q"
    by (simp add: filter_empty_conv)
  with assms(1) have "\<forall>q \<in> set (requests new). \<not> P' q" by blast
  then have "filter P' (requests new) = []"
    by (simp add: filter_empty_conv)
  with new(1) show "\<exists>new. snd (m t) = t @ new \<and> length (filter P' (requests new)) \<le> 0"
    by simp
qed

lemma stray_quiet: "at_most (is_method_call ''concat'') 0 m \<Longrightarrow> at_most stray_concat 0 m"
  by (rule at_most_weaken[of stray_concat "is_method_call ''concat''"]) (simp_all add: stray_concat_def)

lemma repetition_keeps_state:
  "bindE (repetition G lib clf param_grid features targets splitter i s) g =
   bindE (repetition G lib clf param_grid features targets splitter i s) (\<lambda>x. g s)"
  by (simp add: repetition_def bindE_assoc)

lemma loop_keeps_state:
  "bindE (for_range_from i k (repetition G lib clf param_grid features targets splitter) s) g =
   bindE (for_range_from i k (repetition G lib clf param_grid features targets splitter) s)
     (\<lambda>x. g s)"
proof (induction k arbitrary: i)
  case 0
  show ?case by simp
next
  case (Suc k)
  let ?body = "repetition G lib clf param_grid features targets splitter"
  have "bindE (for_range_from i (Suc k) ?body s) g =
        bindE (?body i s) (\<lambda>x. bindE (for_range_from (Suc i) k ?body x) g)"
    by (simp add: bindE_assoc)
  also have "\<dots> = bindE (?body i s) (\<lambda>x. bindE (for_range_from (Suc i) k ?body s) g)"
    by (rule repetition_keeps_state)
  also have "\<dots> = bindE (?body i s) (\<lambda>x. bindE (for_range_from (Suc i) k ?body s) (\<lambda>y. g s))"
    by (simp add: Suc.IH[of "Suc i"])
  also have "\<dots> = bindE (?body i s) (\<lambda>x. bindE (for_range_from (Suc i) k ?body x) (\<lambda>y. g s))"
    by (rule repetition_keeps_state[symmetric])
  also have "\<dots> = bindE (for_range_from i (Suc k) ?body s) (\<lambda>y. g s)"
    by (simp add: bindE_assoc)
  finally show ?case .
qed

lemma concat_of_empty_list:
  assumes "G ''pd'' = Some (PModule ''pandas'')"
  shows "at_most stray_concat 0 (concat_results G lib [])"
proof -
  have g: "at_most stray_concat 0 (getattr lib (PModule ''pandas'') ''concat'')"
    by (rule stray_quiet[OF at_most_getattr])
  have c: "at_most stray_concat 0 (call_method lib (PModule ''pandas'') ''concat'' [PList []] [])"
    unfolding call_method_def by (rule at_most_request) (simp add: stray_concat_def)
  have "at_most stray_concat 0
          (bindE (getattr lib (PModule ''pandas'') ''concat'')
             (\<lambda>_. call_method lib (PModule ''pandas'') ''concat'' [PList []] []))"
    by (rule at_most_bind0L[OF g c])
  with assms show ?thesis
    by (simp add: concat_results_def load_global_def)
qed

lemma no_stray_concat_plot:
  assumes "G ''pd'' = Some (PModule ''pandas'')"
  shows "at_most stray_concat 0
           (plot_performance_vs_hyperparams G lib clf param_grid features targets n_split n_fold)"
  unfolding plot_performance_vs_hyperparams_def for_range_def
  apply (subst loop_keeps_state)
  apply (intro at_most_bind0L at_most_case_prod at_most_for_range_from
      concat_of_empty_list[of G, OF assms] stray_quiet quiet_new_splitter quiet_get_logger
      at_most_range_count quiet_repetition quiet_reset_row_index quiet_make_axes
      quiet_lineplot_alpha quiet_lineplot_l1_ratio at_most_retE)
  apply simp_all
  done

lemma one_split_loop:
  assumes "G ''df_curves'' = None"
  shows "at_most (is_method_call ''split'') 1
           (for_range_from i k (repetition G lib clf param_grid features targets splitter) s)"
proof (cases k)
  case 0
  then show ?thesis by (simp add: at_most_retE)
next
  case (Suc j)
  let ?first = "bindE (fit_repetition G lib clf param_grid features targets splitter)
                  (\<lambda>cvres. raiseE (NameError ''df_curves'') :: (pyval list) exec)"
  have r: "raises ?first"
    by (intro raises_bindR raises_raiseE)
  have a: "at_most (is_method_call ''split'') 1 ?first"
    by (intro at_most_bind0R one_split_fit_repetition at_most_raiseE)
  have "at_most (is_method_call ''split'') 1
          (bindE ?first
             (for_range_from (Suc i) j (repetition G lib clf param_grid features targets splitter)))"
    by (rule at_most_raises[OF a r])
  with assms Suc show ?thesis
    by (simp add: repetition_unbound)
qed

lemma one_split_plot:
  assumes "G ''df_curves'' = None"
  shows "at_most (is_method_call ''split'') 1
           (plot_performance_vs_hyperparams G lib clf param_grid features targets n_split n_fold)"
  unfolding plot_performance_vs_hyperparams_def for_range_def
  apply (rule at_most_bind0L[OF quiet_new_splitter])
  apply (rule at_most_bind0L[OF quiet_get_logger])
  apply (rule at_most_bind0L[OF at_most_range_count])
  apply (rule at_most_bind0R[OF one_split_loop[of G, OF assms]])
  apply (intro at_most_bind0L at_most_case_prod quiet_concat_results quiet_reset_row_index
      quiet_make_axes quiet_lineplot_alpha quiet_lineplot_l1_ratio at_most_retE)
      apply simp_all
  done


subsection \<open>The first repetition\<close>

lemma bindE_if: "bindE (if c then a else b) f = (if c then bindE a f else bindE b f)"
  by simp

lemma loop_unbound:
  assumes "G ''df_curves'' = None"
  shows "bindE (for_range_from i n (repetition G lib clf param_grid features targets splitter) s) g =
         (if n = 0 then g s
          else bindE (fit_repetition G lib clf param_grid features targets splitter)
                 (\<lambda>cvres. raiseE (NameError ''df_curves'')))"
  using assms by (cases n) (simp_all add: repetition_unbound bindE_assoc)

lemma plot_by_first_repetition:
  assumes "G ''df_curves'' = None"
  shows "plot_performance_vs_hyperparams G lib clf param_grid features targets n_split n_fold =
           bindE (first_repetition G lib clf param_grid features targets n_split n_fold)
             (\<lambda>r. case r of
                     None \<Rightarrow> aggregate_and_plot G lib []
                   | Some cvres \<Rightarrow> raiseE (NameError ''df_curves''))"
  unfolding plot_performance_vs_hyperparams_def first_repetition_def aggregate_and_plot_def
    for_range_def loop_unbound[of G, OF assms]
  by (simp add: bindE_assoc bindE_if cong: if_cong)

lemma outcome_bindE_Inl: "outcome m = Inl e \<Longrightarrow> outcome (bindE m f) = Inl e"
  by (cases "m []") (simp add: outcome_def bindE_def)

lemma trace_bindE_Inl: "outcome m = Inl e \<Longrightarrow> trace (bindE m f) = trace m"
  by (cases "m []") (simp add: outcome_def trace_def bindE_def)

lemma outcome_bindE_Inr: "outcome m = Inr x \<Longrightarrow> outcome (bindE m f) = fst (f x (trace m))"
  by (cases "m []") (simp add: outcome_def trace_def bindE_def)

lemma trace_bindE_Inr: "outcome m = Inr x \<Longrightarrow> trace (bindE m f) = snd (f x (trace m))"
  by (cases "m []") (simp add: outcome_def trace_def bindE_def)

lemma at_most_if: "at_most P n a \<Longrightarrow> at_most P n b \<Longrightarrow> at_most P n (if c then a else b)"
  by simp

lemma no_concat_first_repetition:
  "at_most (is_method_call ''concat'') 0
     (first_repetition G lib clf param_grid features targets n_split n_fold)"
  unfolding first_repetition_def
  by (intro at_most_bind0L at_most_if at_most_retE quiet_new_splitter quiet_get_logger
        at_most_range_count quiet_fit_repetition) simp

lemma first_repetition_exists:
  assumes "(\<exists>n. n_fold = PInt n \<and> 1 \<le> n) \<or> n_fold = PBool True"
  shows "outcome (first_repetition G lib clf param_grid features targets n_split n_fold)
           \<noteq> Inr None"
proof -
  from assms obtain k where k: "range_count lib n_fold = retE (Suc k)"
  proof
    assume "\<exists>n. n_fold = PInt n \<and> 1 \<le> n"
    then obtain n where n: "n_fold = PInt n" "1 \<le> n" by blast
    then obtain j where "nat n = Suc j" by (cases "nat n") simp_all
    with n have "range_count lib n_fold = retE (Suc j)" by (simp add: range_count_def)
    then show ?thesis by (rule that)
  next
    assume "n_fold = PBool True"
    then have "range_count lib n_fold = retE (Suc 0)" by (simp add: range_count_def)
    then show ?thesis by (rule that)
  qed
  show ?thesis
    by (auto simp: first_repetition_def k outcome_def bindE_def retE_def
          split: prod.splits sum.splits)
qed


subsection \<open>The call under the main guard\<close>

lemma main_call_result:
  assumes "main_call G lib t = (Inr (G', f, args), t')"
  shows "\<exists>clf en. G' = G(''clf'' \<mapsto> clf, ''param_grid_dict'' \<mapsto> param_grid_dict en)
                 \<and> G ''plot_performance_vs_hyperparams'' = Some f
                 \<and> args = [clf, param_grid_dict en]"
  using assms
  by (auto simp: main_call_def build_clf_def build_param_grid_dict_def bindE_def retE_def
        raiseE_def load_global_def getattr_def call_method_def request_def
        split: prod.splits sum.splits option.splits)

lemma outer_dictionary_is_no_grid: "param_combinations (param_grid_dict en) = None"
  by (simp add: param_grid_dict_def elastic_net_grid_def)

lemma inner_grid_combinations:
  "map_option length (param_combinations (elastic_net_grid en)) = Some 30"
  by (simp add: elastic_net_grid_def)


section \<open>Concrete runs\<close>

text \<open>The definitions a concrete run unfolds; the simplifier evaluates it.\<close>

lemmas run_defs =
  outcome_def trace_def requests_def bindE_def retE_def raiseE_def request_def call_def
  getattr_def call_method_def getitem_def iterate_def unpack2_def range_count_def for_range_def
  load_global_def module_globals_def new_splitter_def get_logger_def make_split_def
  new_grid_search_def fit_grid_def cv_results_table_def append_cvres_def fit_repetition_def
  repetition_def concat_results_def reset_row_index_def make_axes_def lineplot_alpha_def
  lineplot_l1_ratio_def plot_performance_vs_hyperparams_def repetition_consistent_def
  plot_performance_consistent_def until_first_append_def until_plotting_def
  first_repetition_def aggregate_and_plot_def build_clf_def build_param_grid_dict_def
  main_call_def main_def call_value_def
  sklearn_exports_def model_selection_exports_def sample_globals_def permissive_library_def
  too_few_splits_def strict_library_def scenario_clf_def scenario_features_def
  scenario_targets_def scenario_grid_def is_method_call_def exports_def


lemma sample_df_curves: "sample_globals ''df_curves'' = None"
  by (simp add: sample_globals_def module_globals_def sklearn_exports_def
        model_selection_exports_def)

lemma sample_sns: "sample_globals ''sns'' = None"
  by (simp add: sample_globals_def module_globals_def sklearn_exports_def
        model_selection_exports_def)

lemma sample_pipeline: "sample_globals ''pipeline'' = Some (PModule ''sklearn.pipeline'')"
  by (simp add: sample_globals_def module_globals_def sklearn_exports_def
        model_selection_exports_def)

lemma sample_preprocessing:
  "sample_globals ''preprocessing'' = Some (PModule ''sklearn.preprocessing'')"
  by (simp add: sample_globals_def module_globals_def sklearn_exports_def
        model_selection_exports_def)

lemma sample_linear_model:
  "sample_globals ''linear_model'' = Some (PModule ''sklearn.linear_model'')"
  by (simp add: sample_globals_def module_globals_def sklearn_exports_def
        model_selection_exports_def)

lemma sample_function:
  "sample_globals ''plot_performance_vs_hyperparams''
     = Some (PFunction ''plot_performance_vs_hyperparams'')"
  by (simp add: sample_globals_def module_globals_def)

lemma sample_main_call:
  "outcome (main_call sample_globals permissive_library)
     = Inr (sample_globals(''clf'' \<mapsto> PObj 6, ''param_grid_dict'' \<mapsto> param_grid_dict (PObj 10)),
            PFunction ''plot_performance_vs_hyperparams'',
            [PObj 6, param_grid_dict (PObj 10)])"
  by (simp add: main_call_def build_clf_def build_param_grid_dict_def outcome_def bindE_def
        retE_def raiseE_def load_global_def getattr_def call_method_def request_def
        permissive_library_def sample_pipeline sample_preprocessing sample_linear_model
        sample_function eval_nat_numeral)


section \<open>The claims\<close>

subsection \<open>C1: the accumulator that is appended to is never bound\<close>

text \<open>
  C1, as stated, says that every invocation with \<open>n_fold \<ge> 1\<close> reaches the unbound
  name \<open>df_curves\<close> in its first repetition. An exception of a library raised before
  line 23 leaves the function first: with \<open>n_split = 1\<close> the splitter of line 14 is
  refused with a ValueError, and the loop is never entered.
\<close>

theorem earlier_exception_counterexample:
  "\<not> exports sklearn_exports ''df_curves''
   \<and> \<not> exports model_selection_exports ''df_curves''
   \<and> outcome (plot_performance_vs_hyperparams sample_globals strict_library scenario_clf
                scenario_grid scenario_features scenario_targets (PInt 1) (PInt 1))
       = Inl ValueError
   \<and> outcome (plot_performance_vs_hyperparams sample_globals strict_library scenario_clf
                scenario_grid scenario_features scenario_targets (PInt 1) (PInt 1))
       \<noteq> Inl (NameError ''df_curves'')
   \<and> requests (trace (plot_performance_vs_hyperparams sample_globals strict_library scenario_clf
                scenario_grid scenario_features scenario_targets (PInt 1) (PInt 1)))
       = [Call (PImported ''sklearn.model_selection'' ''StratifiedKFold'') []
            [(''n_splits'', PInt 1), (''shuffle'', PBool True)]]"
  by (simp add: run_defs)

text \<open>
  C1, amended. Let neither wildcard import export \<open>df_curves\<close>. An \<open>n_fold\<close> that
  is an int of at least 1, or True, gives the loop a first repetition. In every
  invocation whose loop has a first repetition: the invocation raises and never
  returns; when lines 14 to 22 of the first repetition raise nothing, the exception
  is the NameError of \<open>df_curves\<close>; otherwise the exception raised before line 23
  is the exception of the invocation, unchanged; the run makes the requests of lines
  14 to 22 of the first repetition and no other; and no concatenation is ever
  requested, so no result is aggregated.
\<close>

theorem df_curves_stops_first_repetition:
  assumes "G = module_globals sklearn_star model_selection_star"
    and "\<not> exports sklearn_star ''df_curves''"
    and "\<not> exports model_selection_star ''df_curves''"
  shows "(((\<exists>n. n_fold = PInt n \<and> 1 \<le> n) \<or> n_fold = PBool True) \<longrightarrow>
            outcome (first_repetition G lib clf param_grid features targets n_split n_fold)
              \<noteq> Inr None)
       \<and> (outcome (first_repetition G lib clf param_grid features targets n_split n_fold)
            \<noteq> Inr None \<longrightarrow>
            (\<exists>e. outcome (plot_performance_vs_hyperparams G lib clf param_grid features targets
                            n_split n_fold) = Inl e)
          \<and> (\<forall>cvres. outcome (first_repetition G lib clf param_grid features targets
                                 n_split n_fold) = Inr (Some cvres) \<longrightarrow>
                outcome (plot_performance_vs_hyperparams G lib clf param_grid features targets
                           n_split n_fold) = Inl (NameError ''df_curves''))
          \<and> (\<forall>e. outcome (first_repetition G lib clf param_grid features targets
                             n_split n_fold) = Inl e \<longrightarrow>
                outcome (plot_performance_vs_hyperparams G lib clf param_grid features targets
                           n_split n_fold) = Inl e)
          \<and> trace (plot_performance_vs_hyperparams G lib clf param_grid features targets
                      n_split n_fold)
              = trace (first_repetition G lib clf param_grid features targets n_split n_fold)
          \<and> filter (is_method_call ''concat'')
              (requests (trace (plot_performance_vs_hyperparams G lib clf param_grid features
                                  targets n_split n_fold))) = [])"
proof -
  let ?U = "first_repetition G lib clf param_grid features targets n_split n_fold"
  let ?P = "plot_performance_vs_hyperparams G lib clf param_grid features targets n_split n_fold"
  let ?K = "\<lambda>r. case r of None \<Rightarrow> aggregate_and_plot G lib []
                   | Some cvres \<Rightarrow> raiseE (NameError ''df_curves'')"
  from assms have unbound: "G ''df_curves'' = None"
    by (simp add: module_globals_unbound)
  have eq: "?P = bindE ?U ?K"
    by (rule plot_by_first_repetition[of G, OF unbound])
  have quiet: "filter (is_method_call ''concat'') (requests (trace ?U)) = []"
    by (rule at_most_none[OF no_concat_first_repetition])
  have some: "outcome ?P = Inl (NameError ''df_curves'') \<and> trace ?P = trace ?U"
    if "outcome ?U = Inr (Some cvres)" for cvres
    using that by (simp add: eq outcome_bindE_Inr trace_bindE_Inr raiseE_def)
  have err: "outcome ?P = Inl e \<and> trace ?P = trace ?U" if "outcome ?U = Inl e" for e
    using that by (simp add: eq outcome_bindE_Inl trace_bindE_Inl)
  have rest: "(\<exists>e. outcome ?P = Inl e) \<and> trace ?P = trace ?U" if "outcome ?U \<noteq> Inr None"
  proof (cases "outcome ?U")
    case (Inl e)
    with err show ?thesis by blast
  next
    case (Inr r)
    with that obtain cvres where "r = Some cvres" by (cases r) simp_all
    with Inr some show ?thesis by blast
  qed
  from first_repetition_exists[of n_fold G lib clf param_grid features targets n_split]
    rest some err quiet
  show ?thesis by simp
qed

text \<open>
  C1, witness. In the scenario of the spec with a library that answers every request,
  lines 14 to 22 of the first repetition return the table of results and the
  invocation ends with the NameError of \<open>df_curves\<close>. With \<open>n_fold = True\<close> and
  a splitter of one fold, line 14 raises a ValueError and the invocation ends with it.
\<close>

theorem df_curves_stops_first_repetition_witness:
  "\<not> exports sklearn_exports ''df_curves''
   \<and> \<not> exports model_selection_exports ''df_curves''
   \<and> (1::int) \<le> 2
   \<and> outcome (first_repetition sample_globals permissive_library scenario_clf scenario_grid
                scenario_features scenario_targets (PInt 7) (PInt 2)) = Inr (Some (PObj 52))
   \<and> outcome (plot_performance_vs_hyperparams sample_globals permissive_library scenario_clf
                scenario_grid scenario_features scenario_targets (PInt 7) (PInt 2))
       = Inl (NameError ''df_curves'')
   \<and> outcome (first_repetition sample_globals strict_library scenario_clf scenario_grid
                scenario_features scenario_targets (PInt 1) (PBool True)) = Inl ValueError
   \<and> outcome (plot_performance_vs_hyperparams sample_globals strict_library scenario_clf
                scenario_grid scenario_features scenario_targets (PInt 1) (PBool True))
       = Inl ValueError"
proof -
  have h1: "\<not> exports sklearn_exports ''df_curves''"
    by (simp add: exports_def sklearn_exports_def)
  have h2: "\<not> exports model_selection_exports ''df_curves''"
    by (simp add: exports_def model_selection_exports_def)
  have u: "outcome (first_repetition sample_globals permissive_library scenario_clf
             scenario_grid scenario_features scenario_targets (PInt 7) (PInt 2))
           = Inr (Some (PObj 52))"
    by (simp add: run_defs)
  have v: "outcome (first_repetition sample_globals strict_library scenario_clf scenario_grid
             scenario_features scenario_targets (PInt 1) (PBool True)) = Inl ValueError"
    by (simp add: run_defs)
  from df_curves_stops_first_repetition[OF sample_globals_def h1 h2,
      where lib = permissive_library and clf = scenario_clf and param_grid = scenario_grid
        and features = scenario_features and targets = scenario_targets
        and n_split = "PInt 7" and n_fold = "PInt 2"] u
  have a: "outcome (plot_performance_vs_hyperparams sample_globals permissive_library scenario_clf
                scenario_grid scenario_features scenario_targets (PInt 7) (PInt 2))
       = Inl (NameError ''df_curves'')"
    by simp
  from df_curves_stops_first_repetition[OF sample_globals_def h1 h2,
      where lib = strict_library and clf = scenario_clf and param_grid = scenario_grid
        and features = scenario_features and targets = scenario_targets
        and n_split = "PInt 1" and n_fold = "PBool True"] v
  have b: "outcome (plot_performance_vs_hyperparams sample_globals strict_library scenario_clf
                scenario_grid scenario_features scenario_targets (PInt 1) (PBool True))
       = Inl ValueError"
    by simp
  from h1 h2 u v a b show ?thesis by simp
qed


subsection \<open>C2: the end-to-end scenario\<close>

text \<open>
  C2 says that the scenario of the spec (20 samples, 5 features, a grid of
  2 by 2 candidates, \<open>n_fold = 2\<close>) completes with a table of 8 rows and two
  charts. The code does not: with a library that answers every request the run
  stops at \<open>df_curves\<close> after the 27 requests of lines 14 to 22, and with any
  library at all it raises, requests no concatenation and draws no line chart.
\<close>

theorem scenario_raises:
  "outcome (plot_performance_vs_hyperparams sample_globals permissive_library scenario_clf
              scenario_grid scenario_features scenario_targets (PInt 7) (PInt 2))
     = Inl (NameError ''df_curves'')
   \<and> length (trace (plot_performance_vs_hyperparams sample_globals permissive_library
                      scenario_clf scenario_grid scenario_features scenario_targets
                      (PInt 7) (PInt 2))) = 27
   \<and> (\<exists>e. outcome (plot_performance_vs_hyperparams sample_globals lib scenario_clf
                      scenario_grid scenario_features scenario_targets (PInt 7) (PInt 2))
             = Inl e)
   \<and> filter (is_method_call ''concat'')
       (requests (trace (plot_performance_vs_hyperparams sample_globals lib scenario_clf
                           scenario_grid scenario_features scenario_targets (PInt 7) (PInt 2))))
       = []
   \<and> filter (is_method_call ''lineplot'')
       (requests (trace (plot_performance_vs_hyperparams sample_globals lib scenario_clf
                           scenario_grid scenario_features scenario_targets (PInt 7) (PInt 2))))
       = []"
proof -
  have n: "(1::int) \<le> 2" by simp
  note eq = plot_unbound_accumulator[of sample_globals, OF sample_df_curves n]
  have 1: "outcome (plot_performance_vs_hyperparams sample_globals permissive_library scenario_clf
              scenario_grid scenario_features scenario_targets (PInt 7) (PInt 2))
     = Inl (NameError ''df_curves'')"
    by (simp add: eq outcome_then_raise) (simp add: run_defs)
  have 2: "length (trace (plot_performance_vs_hyperparams sample_globals permissive_library
                      scenario_clf scenario_grid scenario_features scenario_targets
                      (PInt 7) (PInt 2))) = 27"
    by (simp add: eq trace_then_raise) (simp add: run_defs)
  have 3: "\<exists>e. outcome (plot_performance_vs_hyperparams sample_globals lib scenario_clf
                      scenario_grid scenario_features scenario_targets (PInt 7) (PInt 2))
             = Inl e"
    by (rule raises_outcome[OF raises_plot[of sample_globals, OF sample_sns]])
  have 4: "filter (is_method_call ''concat'')
       (requests (trace (plot_performance_vs_hyperparams sample_globals lib scenario_clf
                           scenario_grid scenario_features scenario_targets (PInt 7) (PInt 2))))
       = []"
    by (simp add: eq trace_then_raise at_most_none[OF no_concat_until_first_append])
  have 5: "filter (is_method_call ''lineplot'')
       (requests (trace (plot_performance_vs_hyperparams sample_globals lib scenario_clf
                           scenario_grid scenario_features scenario_targets (PInt 7) (PInt 2))))
       = []"
    by (rule at_most_none[OF no_lineplot_plot[of sample_globals, OF sample_sns]])
  from 1 2 3 4 5 show ?thesis by simp
qed


subsection \<open>C3: the number of rows of the aggregated table\<close>

text \<open>
  C3 says that the aggregated table has \<open>n_fold\<close> times the number of combinations
  rows. For \<open>n_fold = 1\<close> and the grid of 4 combinations the code produces no
  table: the run raises the NameError of \<open>df_curves\<close> and never requests a
  concatenation.
\<close>

theorem single_repetition_has_no_table:
  "map_option length (param_combinations scenario_grid) = Some 4
   \<and> outcome (plot_performance_vs_hyperparams sample_globals strict_library scenario_clf
                scenario_grid scenario_features scenario_targets (PInt 7) (PInt 1))
       = Inl (NameError ''df_curves'')
   \<and> filter (is_method_call ''concat'')
       (requests (trace (plot_performance_vs_hyperparams sample_globals strict_library
                           scenario_clf scenario_grid scenario_features scenario_targets
                           (PInt 7) (PInt 1)))) = []"
proof -
  have 1: "map_option length (param_combinations scenario_grid) = Some 4"
    by (simp add: scenario_grid_def)
  have n: "(1::int) \<le> 1" by simp
  have 2: "outcome (plot_performance_vs_hyperparams sample_globals strict_library scenario_clf
                scenario_grid scenario_features scenario_targets (PInt 7) (PInt 1))
       = Inl (NameError ''df_curves'')"
    by (simp add: plot_unbound_accumulator[of sample_globals, OF sample_df_curves n]
          outcome_then_raise) (simp add: run_defs)
  have 3: "filter (is_method_call ''concat'')
       (requests (trace (plot_performance_vs_hyperparams sample_globals strict_library
                           scenario_clf scenario_grid scenario_features scenario_targets
                           (PInt 7) (PInt 1)))) = []"
    by (simp add: plot_unbound_accumulator[of sample_globals, OF sample_df_curves n]
          trace_then_raise at_most_none[OF no_concat_until_first_append])
  from 1 2 3 show ?thesis by simp
qed


subsection \<open>C4: what the aggregator receives\<close>

text \<open>
  C4 says that the aggregator concatenates the tables of the repetitions in append
  order. In the code the list given to \<^verbatim>\<open>pd.concat\<close> is the one created at line 16,
  and nothing is ever appended to it: in every run, with every library and whatever
  the wildcard imports export, a concatenation request is \<^verbatim>\<open>pd.concat([])\<close>.
\<close>

theorem concat_receives_empty_list:
  "filter stray_concat
     (requests (trace (plot_performance_vs_hyperparams
                         (module_globals sklearn_star model_selection_star) lib clf param_grid
                         features targets n_split n_fold))) = []"
  by (rule at_most_none[OF no_stray_concat_plot[of "module_globals sklearn_star model_selection_star",
        OF module_globals_pd]])


subsection \<open>C5: one split per repetition\<close>

text \<open>
  C5 says that each of the \<open>n_fold\<close> repetitions makes its own split. When no import
  binds \<open>df_curves\<close> the first repetition is the last one, so a run asks the splitter
  for a split at most once, whatever \<open>n_fold\<close> is. (That the folds of two
  repetitions are drawn independently is a property of the library's random
  generator, which the model leaves open.)
\<close>

theorem at_most_one_split:
  assumes "G = module_globals sklearn_star model_selection_star"
    and "\<not> exports sklearn_star ''df_curves''"
    and "\<not> exports model_selection_star ''df_curves''"
  shows "length (filter (is_method_call ''split'')
                   (requests (trace (plot_performance_vs_hyperparams G lib clf param_grid
                                       features targets n_split n_fold)))) \<le> 1"
proof -
  from assms have unbound: "G ''df_curves'' = None"
    by (simp add: module_globals_unbound)
  show ?thesis
    by (rule at_most_trace[OF one_split_plot[of G, OF unbound]])
qed

text \<open>C5, witness: three repetitions asked for, with a library that answers every request.\<close>

theorem at_most_one_split_witness:
  "\<not> exports sklearn_exports ''df_curves''
   \<and> \<not> exports model_selection_exports ''df_curves''
   \<and> length (filter (is_method_call ''split'')
               (requests (trace (plot_performance_vs_hyperparams sample_globals
                                   permissive_library scenario_clf scenario_grid
                                   scenario_features scenario_targets (PInt 7) (PInt 3)))))
       \<le> 1"
proof -
  have h1: "\<not> exports sklearn_exports ''df_curves''"
    by (simp add: exports_def sklearn_exports_def)
  have h2: "\<not> exports model_selection_exports ''df_curves''"
    by (simp add: exports_def model_selection_exports_def)
  from at_most_one_split[OF sample_globals_def h1 h2] h1 h2 show ?thesis by simp
qed


subsection \<open>C7: exceptions of the libraries propagate\<close>

text \<open>
  C7: the function catches nothing. If a request recorded in the trace of an
  invocation failed with an exception, that request is the last one of the trace
  (nothing is retried, nothing runs after it) and the invocation ends with that
  same exception.
\<close>

theorem library_exception_propagates:
  assumes "trace (plot_performance_vs_hyperparams G lib clf param_grid features targets
                    n_split n_fold) = p @ (q, Inl e) # rest"
  shows "rest = []
       \<and> outcome (plot_performance_vs_hyperparams G lib clf param_grid features targets
                    n_split n_fold) = Inl e"
  using propagates_run[OF propagates_plot assms] .

text \<open>
  C7, witness: a splitter of one fold is refused with a ValueError at line 14; the
  invocation ends with that ValueError after this one request.
\<close>

theorem library_exception_propagates_witness:
  "trace (plot_performance_vs_hyperparams sample_globals strict_library scenario_clf
            scenario_grid scenario_features scenario_targets (PInt 1) (PInt 15))
     = [] @ (Call (PImported ''sklearn.model_selection'' ''StratifiedKFold'') []
               [(''n_splits'', PInt 1), (''shuffle'', PBool True)], Inl ValueError) # []
   \<and> outcome (plot_performance_vs_hyperparams sample_globals strict_library scenario_clf
                scenario_grid scenario_features scenario_targets (PInt 1) (PInt 15))
       = Inl ValueError"
proof -
  have t: "trace (plot_performance_vs_hyperparams sample_globals strict_library scenario_clf
            scenario_grid scenario_features scenario_targets (PInt 1) (PInt 15))
     = [] @ (Call (PImported ''sklearn.model_selection'' ''StratifiedKFold'') []
               [(''n_splits'', PInt 1), (''shuffle'', PBool True)], Inl ValueError) # []"
    by (simp add: run_defs)
  from library_exception_propagates[OF t] t show ?thesis by simp
qed


subsection \<open>C8: the two line charts\<close>

text \<open>
  C8 says that two line charts are rendered. With the names the sample environment
  binds, no run requests a \<open>lineplot\<close> and no run returns, whatever the library
  and the arguments are. A run that gets to the visualizer (no repetition, and a
  library that accepts the empty concatenation) creates the two axes with a shared
  vertical scale at line 27 and stops there with the NameError of \<open>sns\<close>.
\<close>

theorem visualizer_stops_at_sns:
  "(\<exists>e. outcome (plot_performance_vs_hyperparams sample_globals lib clf param_grid features
                    targets n_split n_fold) = Inl e)
   \<and> filter (is_method_call ''lineplot'')
       (requests (trace (plot_performance_vs_hyperparams sample_globals lib clf param_grid
                           features targets n_split n_fold))) = []
   \<and> requests (trace (plot_performance_vs_hyperparams sample_globals permissive_library
                        scenario_clf scenario_grid scenario_features scenario_targets
                        (PInt 7) (PInt 0)))
       = [Call (PImported ''sklearn.model_selection'' ''StratifiedKFold'') []
            [(''n_splits'', PInt 7), (''shuffle'', PBool True)],
          GetItem (PImported ''mnts.mnts_logger'' ''MNTSLogger'') (PStr ''cv_grid_search_plot''),
          GetAttr (PModule ''pandas'') ''concat'',
          CallMethod (PModule ''pandas'') ''concat'' [PList []] [],
          GetAttr (PObj 6) ''reset_index'',
          CallMethod (PObj 6) ''reset_index'' [] [],
          GetAttr (PModule ''matplotlib.pyplot'') ''subplots'',
          CallMethod (PModule ''matplotlib.pyplot'') ''subplots'' [PInt 1, PInt 2]
            [(''figsize'', PTuple [PInt 10, PInt 5]), (''sharey'', PBool True)],
          Iterate (PObj 14)]
   \<and> outcome (plot_performance_vs_hyperparams sample_globals permissive_library scenario_clf
                scenario_grid scenario_features scenario_targets (PInt 7) (PInt 0))
       = Inl (NameError ''sns'')"
proof -
  have 1: "\<exists>e. outcome (plot_performance_vs_hyperparams sample_globals lib clf param_grid features
                    targets n_split n_fold) = Inl e"
    by (rule raises_outcome[OF raises_plot[of sample_globals, OF sample_sns]])
  have 2: "filter (is_method_call ''lineplot'')
       (requests (trace (plot_performance_vs_hyperparams sample_globals lib clf param_grid
                           features targets n_split n_fold))) = []"
    by (rule at_most_none[OF no_lineplot_plot[of sample_globals, OF sample_sns]])
  have 3: "requests (trace (plot_performance_vs_hyperparams sample_globals permissive_library
                        scenario_clf scenario_grid scenario_features scenario_targets
                        (PInt 7) (PInt 0)))
       = [Call (PImported ''sklearn.model_selection'' ''StratifiedKFold'') []
            [(''n_splits'', PInt 7), (''shuffle'', PBool True)],
          GetItem (PImported ''mnts.mnts_logger'' ''MNTSLogger'') (PStr ''cv_grid_search_plot''),
          GetAttr (PModule ''pandas'') ''concat'',
          CallMethod (PModule ''pandas'') ''concat'' [PList []] [],
          GetAttr (PObj 6) ''reset_index'',
          CallMethod (PObj 6) ''reset_index'' [] [],
          GetAttr (PModule ''matplotlib.pyplot'') ''subplots'',
          CallMethod (PModule ''matplotlib.pyplot'') ''subplots'' [PInt 1, PInt 2]
            [(''figsize'', PTuple [PInt 10, PInt 5]), (''sharey'', PBool True)],
          Iterate (PObj 14)]"
    by (simp add: run_defs)
  have 4: "outcome (plot_performance_vs_hyperparams sample_globals permissive_library scenario_clf
                scenario_grid scenario_features scenario_targets (PInt 7) (PInt 0))
       = Inl (NameError ''sns'')"
    by (simp add: run_defs)
  from 1 2 3 4 show ?thesis by simp
qed


subsection \<open>C9: the plotting calls use a name that no import binds\<close>

text \<open>
  C9: let neither wildcard import export \<open>sns\<close>. Then the first plotting statement
  raises the NameError of \<open>sns\<close> before it makes any request. Also with the
  accumulator named consistently the function never returns; when all of lines 14
  to 27 raise nothing its exception is that NameError; and neither that variant nor
  the function of the repository ever requests a \<open>lineplot\<close>.
\<close>

theorem sns_unbound_stops_plotting:
  assumes "G = module_globals sklearn_star model_selection_star"
    and "\<not> exports sklearn_star ''sns''"
    and "\<not> exports model_selection_star ''sns''"
  shows "lineplot_alpha G lib df ax t = (Inl (NameError ''sns''), t)
       \<and> (\<exists>e. outcome (plot_performance_consistent G lib clf param_grid features targets
                          n_split n_fold) = Inl e)
       \<and> (\<forall>r. outcome (until_plotting G lib clf param_grid features targets n_split n_fold)
                  = Inr r \<longrightarrow>
              outcome (plot_performance_consistent G lib clf param_grid features targets
                         n_split n_fold) = Inl (NameError ''sns''))
       \<and> filter (is_method_call ''lineplot'')
           (requests (trace (plot_performance_consistent G lib clf param_grid features targets
                               n_split n_fold))) = []
       \<and> (\<exists>e. outcome (plot_performance_vs_hyperparams G lib clf param_grid features targets
                          n_split n_fold) = Inl e)
       \<and> filter (is_method_call ''lineplot'')
           (requests (trace (plot_performance_vs_hyperparams G lib clf param_grid features
                               targets n_split n_fold))) = []"
proof -
  from assms have unbound: "G ''sns'' = None"
    by (simp add: module_globals_unbound)
  note eq = plot_consistent_unbound[of G, OF unbound]
  have 1: "lineplot_alpha G lib df ax t = (Inl (NameError ''sns''), t)"
    by (simp add: lineplot_alpha_unbound[of G, OF unbound] raiseE_def)
  have 2: "\<exists>e. outcome (bindE (until_plotting G lib clf param_grid features targets n_split n_fold)
                          (\<lambda>r. raiseE (NameError ''sns'') :: pyval exec)) = Inl e"
    by (intro raises_outcome raises_bindR raises_raiseE)
  have 3: "filter (is_method_call ''lineplot'')
     (requests (trace (until_plotting G lib clf param_grid features targets n_split n_fold))) = []"
    by (rule at_most_none[OF no_lineplot_until_plotting])
  have 4: "\<exists>e. outcome (plot_performance_vs_hyperparams G lib clf param_grid features targets
                          n_split n_fold) = Inl e"
    by (rule raises_outcome[OF raises_plot[of G, OF unbound]])
  have 5: "filter (is_method_call ''lineplot'')
           (requests (trace (plot_performance_vs_hyperparams G lib clf param_grid features
                               targets n_split n_fold))) = []"
    by (rule at_most_none[OF no_lineplot_plot[of G, OF unbound]])
  from 1 2 3 4 5 show ?thesis
    by (simp add: eq outcome_then_raise trace_then_raise)
qed

text \<open>
  C9, witness: the consistent variant with two repetitions and a library that answers
  every request gets to the plotting stage and stops at \<open>sns\<close>.
\<close>

theorem sns_unbound_stops_plotting_witness:
  "\<not> exports sklearn_exports ''sns''
   \<and> \<not> exports model_selection_exports ''sns''
   \<and> outcome (until_plotting sample_globals permissive_library scenario_clf scenario_grid
                scenario_features scenario_targets (PInt 7) (PInt 2))
       = Inr (PObj 110, PObj 117)
   \<and> outcome (plot_performance_consistent sample_globals permissive_library scenario_clf
                scenario_grid scenario_features scenario_targets (PInt 7) (PInt 2))
       = Inl (NameError ''sns'')"
proof -
  have h1: "\<not> exports sklearn_exports ''sns''"
    by (simp add: exports_def sklearn_exports_def)
  have h2: "\<not> exports model_selection_exports ''sns''"
    by (simp add: exports_def model_selection_exports_def)
  have u: "outcome (until_plotting sample_globals permissive_library scenario_clf scenario_grid
                scenario_features scenario_targets (PInt 7) (PInt 2))
       = Inr (PObj 110, PObj 117)"
    by (simp add: run_defs eval_nat_numeral)
  from sns_unbound_stops_plotting[OF sample_globals_def h1 h2] u h1 h2
  show ?thesis by simp
qed


subsection \<open>C10: the grid passed under the main guard\<close>

text \<open>
  C10, as stated, says that the invocation under the main guard supplies a grid to
  the driver. It supplies none: line 53 gives two arguments to a function with four
  parameters without a default, so the call is a TypeError and the body never runs.
  With a library that answers every request, the run makes the six requests that
  build the pipeline and the ElasticNet instance, and no other.
\<close>

theorem no_grid_reaches_driver_counterexample:
  "outcome (main sample_globals permissive_library) = Inl TypeError
   \<and> requests (trace (main sample_globals permissive_library))
       = [GetAttr (PModule ''sklearn.pipeline'') ''Pipeline'',
          GetAttr (PModule ''sklearn.preprocessing'') ''StandardScaler'',
          CallMethod (PModule ''sklearn.preprocessing'') ''StandardScaler'' [] [],
          CallMethod (PModule ''sklearn.pipeline'') ''Pipeline''
            [PList [PTuple [PStr ''standardization'', PObj 4],
                    PTuple [PStr ''classification'', PStr ''passthrough'']]] [],
          GetAttr (PModule ''sklearn.linear_model'') ''ElasticNet'',
          CallMethod (PModule ''sklearn.linear_model'') ''ElasticNet'' []
            [(''tol'', PFloat 1 (- 4)), (''max_iter'', PInt 5500)]]"
  by (simp add: run_defs)

text \<open>
  C10, amended. Whenever lines 40 to 52 raise nothing, the call of line 53 is a call
  of the module's function with two positional arguments. The second one, in the
  position of \<open>param_grid\<close>, is the outer dictionary: its one key is
  \<open>'Elastic Net'\<close> and its one value is the inner grid. The outer dictionary is not a
  mapping from parameter names to candidate lists and has no combinations, while the
  inner grid has 1 * 5 * 6 = 30. The call is refused with a TypeError before the body
  of the function runs, so the invocation makes no request after line 52.
\<close>

theorem main_call_is_refused:
  assumes "G = module_globals sklearn_star model_selection_star"
    and "outcome (main_call G lib) = Inr (G', f, args)"
  shows "f = PFunction ''plot_performance_vs_hyperparams''
       \<and> (\<exists>clf en. args = [clf, PDict [(PStr ''Elastic Net'', elastic_net_grid en)]]
                    \<and> map_option length (param_combinations (elastic_net_grid en)) = Some 30
                    \<and> args ! 1 \<noteq> elastic_net_grid en)
       \<and> param_combinations (args ! 1) = None
       \<and> outcome (main G lib) = Inl TypeError
       \<and> trace (main G lib) = trace (main_call G lib)"
proof -
  from assms(2) have run: "main_call G lib [] = (Inr (G', f, args), trace (main_call G lib))"
    by (cases "main_call G lib []") (simp add: outcome_def trace_def)
  from main_call_result[OF run] obtain clf en where
    r: "G ''plot_performance_vs_hyperparams'' = Some f" "args = [clf, param_grid_dict en]"
    by blast
  from r(1) assms(1) have f: "f = PFunction ''plot_performance_vs_hyperparams''"
    by (simp add: module_globals_def)
  have 1: "\<exists>clf en. args = [clf, PDict [(PStr ''Elastic Net'', elastic_net_grid en)]]
                    \<and> map_option length (param_combinations (elastic_net_grid en)) = Some 30
                    \<and> args ! 1 \<noteq> elastic_net_grid en"
    using r(2) inner_grid_combinations[of en]
    by (intro exI[of _ clf] exI[of _ en]) (simp add: param_grid_dict_def elastic_net_grid_def)
  have 2: "param_combinations (args ! 1) = None"
    using r(2) by (simp add: outer_dictionary_is_no_grid)
  have 3: "outcome (main G lib) = Inl TypeError"
    using assms(2) r(2) f
    by (simp add: main_def outcome_bindE_Inr call_value_def raiseE_def)
  have 4: "trace (main G lib) = trace (main_call G lib)"
    using assms(2) r(2) f
    by (simp add: main_def trace_bindE_Inr call_value_def raiseE_def)
  from f 1 2 3 4 show ?thesis by simp
qed

text \<open>C10, witness: the sample environment with a library that answers every request.\<close>

theorem main_call_is_refused_witness:
  "sample_globals = module_globals sklearn_exports model_selection_exports
   \<and> outcome (main_call sample_globals permissive_library)
       = Inr (sample_globals(''clf'' \<mapsto> PObj 6,
                ''param_grid_dict'' \<mapsto> param_grid_dict (PObj 10)),
              PFunction ''plot_performance_vs_hyperparams'',
              [PObj 6, param_grid_dict (PObj 10)])
   \<and> param_combinations ([PObj 6, param_grid_dict (PObj 10)] ! 1) = None
   \<and> outcome (main sample_globals permissive_library) = Inl TypeError
   \<and> trace (main sample_globals permissive_library)
       = trace (main_call sample_globals permissive_library)"
  using main_call_is_refused[OF sample_globals_def sample_main_call] sample_main_call
    sample_globals_def
  by simp

end
